theory Spec2Isabelle
  imports Complex_Main
begin

section \<open>JavaScript values\<close>

text \<open>
  The \<open>fromJson\<close> methods take \<open>jsonObj: any\<close> and decide by truthiness,
  \<open>typeof\<close> and \<open>Array.isArray\<close>, so the values of the input are modelled
  with their run-time shape. Objects of the schema (classes, constraints) live in a
  store and are referred to by address. Strings are ASCII.
\<close>

type_synonym addr = nat

datatype jsvalue =
    JUndefined
  | JNull
  | JBool bool
  | JNumber real
  | JNaN
  | JString string
  | JArray "jsvalue list"
  | JObject "(string \<times> jsvalue) list"
  | JRef addr

type_synonym jsobj = "(string \<times> jsvalue) list"

text \<open>\<open>if (v)\<close>: every value is truthy except \<open>undefined\<close>, \<open>null\<close>,
  \<open>false\<close>, \<open>0\<close>, \<open>NaN\<close> and the empty string.\<close>

fun truthy :: "jsvalue \<Rightarrow> bool" where
  "truthy JUndefined = False"
| "truthy JNull = False"
| "truthy (JBool b) = b"
| "truthy (JNumber r) = (r \<noteq> 0)"
| "truthy JNaN = False"
| "truthy (JString s) = (s \<noteq> [])"
| "truthy (JArray xs) = True"
| "truthy (JObject kvs) = True"
| "truthy (JRef a) = True"

fun typeof :: "jsvalue \<Rightarrow> string" where
  "typeof JUndefined = ''undefined''"
| "typeof JNull = ''object''"
| "typeof (JBool b) = ''boolean''"
| "typeof (JNumber r) = ''number''"
| "typeof JNaN = ''number''"
| "typeof (JString s) = ''string''"
| "typeof (JArray xs) = ''object''"
| "typeof (JObject kvs) = ''object''"
| "typeof (JRef a) = ''object''"

fun isArray :: "jsvalue \<Rightarrow> bool" where
  "isArray (JArray xs) = True"
| "isArray v = False"

text \<open>\<open>jsonObj.k\<close>: the value stored under \<open>k\<close>, \<open>undefined\<close> when there is none.\<close>

definition field :: "jsobj \<Rightarrow> string \<Rightarrow> jsvalue" where
  "field jsonObj k = (case map_of jsonObj k of None \<Rightarrow> JUndefined | Some v \<Rightarrow> v)"

text \<open>\<open>String.prototype.toLowerCase\<close> on ASCII strings: the letters A to Z are replaced
  by a to z, every other character stays.\<close>

definition toLowerCase_char :: "char \<Rightarrow> char" where
  "toLowerCase_char c =
     (case map_of (zip ''ABCDEFGHIJKLMNOPQRSTUVWXYZ'' ''abcdefghijklmnopqrstuvwxyz'') c of
        None \<Rightarrow> c
      | Some l \<Rightarrow> l)"

definition toLowerCase :: "string \<Rightarrow> string" where
  "toLowerCase s = map toLowerCase_char s"

section \<open>Errors\<close>

text \<open>
  \<open>ECObjectsError\<close> carries a status; the message text is left out. \<open>TypeError\<close> is
  what the run time raises when a property of \<open>undefined\<close> is read or a value that is
  not a function is called. A method returns the error or its result, together with the
  receiver as the call leaves it: what was written before a \<open>throw\<close> stays written.
\<close>

datatype ECObjectsStatus =
    ECOBJECTS_ERROR_BASE
  | DuplicateProperty
  | InvalidECJson
  | InvalidMultiplicity
  | OtherStatus nat

datatype error = ECObjectsError ECObjectsStatus | TypeError

type_synonym ('r, 's) outcome = "(error + 'r) \<times> 's"

definition andThen ::
  "('a, 's) outcome \<Rightarrow> ('a \<Rightarrow> 's \<Rightarrow> ('b, 's) outcome) \<Rightarrow> ('b, 's) outcome" where
  "andThen r f = (case r of (Inl e, s) \<Rightarrow> (Inl e, s) | (Inr a, s) \<Rightarrow> f a s)"

text \<open>\<open>xs.forEach(f)\<close>, left at the first call that throws.\<close>

fun forEach :: "('a \<Rightarrow> 's \<Rightarrow> (unit, 's) outcome) \<Rightarrow> 'a list \<Rightarrow> 's \<Rightarrow> (unit, 's) outcome" where
  "forEach f [] s = (Inr (), s)"
| "forEach f (x # xs) s =
     (case f x s of (Inl e, s') \<Rightarrow> (Inl e, s') | (Inr u, s') \<Rightarrow> forEach f xs s')"

section \<open>Enumerations and properties\<close>

text \<open>
  Modelled from the spec: the enumerations of \<open>../ECObjects\<close> and the property classes of
  \<open>./Property\<close> are not among the sources. The spec names the modifiers None, Abstract and
  Sealed, the ends Source and Target, the default strength Referencing, the default
  direction Forward and the default multiplicity 0..1; members the spec does not name
  are kept apart by a number. A property holds its name and its type (for a navigation
  property the relationship and the direction).
\<close>

datatype ECClassModifier =
  ECClassModifier_None | ECClassModifier_Abstract | ECClassModifier_Sealed

datatype StrengthType = Referencing | StrengthType_member nat

datatype RelatedInstanceDirection = Forward | RelatedInstanceDirection_member nat

datatype RelationshipEnd = Source | Target

datatype PrimitiveType = PrimitiveType_member nat

datatype CustomAttributeContainerType = CustomAttributeContainerType_member nat

text \<open>A multiplicity is a lower limit and an upper limit, \<open>None\<close> for \<open>*\<close>.\<close>

datatype RelationshipMultiplicity = RelationshipMultiplicity nat "nat option"

definition zeroOne :: RelationshipMultiplicity where
  "zeroOne = RelationshipMultiplicity 0 (Some 1)"

text \<open>The type slot of a primitive property is declared \<open>PrimitiveType | undefined\<close>,
  and \<open>createPrimitiveProperty\<close> can leave the empty string there.\<close>

datatype property =
    PrimitiveProperty string "(string + PrimitiveType) option"
  | PrimitiveArrayProperty string "(string + PrimitiveType) option"
  | StructProperty string addr
  | StructArrayProperty string addr
  | NavigationProperty string addr RelatedInstanceDirection

fun property_name :: "property \<Rightarrow> string" where
  "property_name (PrimitiveProperty n t) = n"
| "property_name (PrimitiveArrayProperty n t) = n"
| "property_name (StructProperty n t) = n"
| "property_name (StructArrayProperty n t) = n"
| "property_name (NavigationProperty n r d) = n"

section \<open>Schema children and classes\<close>

text \<open>
  Modelled from the spec: the Schema class is not among the sources; its contract is
  \<open>getChild<T>(name): T | undefined\<close>, a name lookup, so a schema object is its lookup
  function. The \<open>schema\<close> of a schema child is absent, the name of a schema, or a
  schema object, as the guard \<open>this.schema && typeof(this.schema) !== "string"\<close> tells.
\<close>

datatype schema_slot =
    NoSchema
  | SchemaName string
  | SchemaObject "jsvalue \<Rightarrow> addr option"

text \<open>\<open>this.schema.getChild(v)\<close> without a guard: a \<open>TypeError\<close> unless the schema is an
  object.\<close>

fun schema_getChild :: "schema_slot \<Rightarrow> jsvalue \<Rightarrow> error + addr option" where
  "schema_getChild (SchemaObject getChild) v = Inr (getChild v)"
| "schema_getChild NoSchema v = Inl TypeError"
| "schema_getChild (SchemaName s) v = Inl TypeError"

record schema_child =
  name :: string
  schema :: schema_slot

record ecclass = schema_child +
  modifier :: ECClassModifier
  baseClass :: "(string + addr) option"
  properties :: "property list option"

record entity_class = ecclass +
  mixins :: "addr list option"

record mixin_class = ecclass +
  appliesTo :: "(string + addr) option"

record custom_attribute_class = ecclass +
  containerType :: "CustomAttributeContainerType option"

record relationship_class = ecclass +
  strength :: StrengthType
  strengthDirection :: RelatedInstanceDirection
  source :: addr
  target :: addr

record relationship_constraint =
  abstractConstraint_field :: "addr option"
  relationshipClass :: addr
  relationshipEnd :: RelationshipEnd
  multiplicity :: RelationshipMultiplicity
  polymorphic :: jsvalue
  roleLabel :: jsvalue
  constraintClasses :: "addr option list option"

text \<open>
  What the classes use of the modules that are not among the sources: the constructor
  and \<open>fromJson\<close> of the base class SchemaChild, whether a member of an enumeration is
  truthy (its run-time encoding), and the parsers of \<open>../ECObjects\<close>. They are parameters
  of the model.
\<close>

record env =
  SchemaChild_new :: "string \<Rightarrow> error + schema_child"
  SchemaChild_fromJson :: "jsobj \<Rightarrow> schema_child \<Rightarrow> (unit, schema_child) outcome"
  modifier_truthy :: "ECClassModifier \<Rightarrow> bool"
  strength_truthy :: "StrengthType \<Rightarrow> bool"
  direction_truthy :: "RelatedInstanceDirection \<Rightarrow> bool"
  parsePrimitiveType :: "string \<Rightarrow> error + PrimitiveType option"
  parseClassModifier :: "jsvalue \<Rightarrow> error + ECClassModifier"
  parseStrength :: "jsvalue \<Rightarrow> error + StrengthType"
  parseStrengthDirection :: "jsvalue \<Rightarrow> error + RelatedInstanceDirection"
  parseCustomAttributeContainerType :: "jsvalue \<Rightarrow> error + CustomAttributeContainerType"
  RelationshipMultiplicity_fromString :: "jsvalue \<Rightarrow> error + RelationshipMultiplicity option"

section \<open>ECClass\<close>

definition new_ECClass :: "env \<Rightarrow> string \<Rightarrow> ECClassModifier option \<Rightarrow> error + ecclass" where
  "new_ECClass env name' modifier' =
     (case SchemaChild_new env name' of
        Inl e \<Rightarrow> Inl e
      | Inr super \<Rightarrow>
          Inr \<lparr> name = name super, schema = schema super,
                modifier = (case modifier' of
                              None \<Rightarrow> ECClassModifier_None
                            | Some m \<Rightarrow> if modifier_truthy env m then m else ECClassModifier_None),
                baseClass = None, properties = None \<rparr>)"

definition getProperty :: "'a ecclass_scheme \<Rightarrow> string \<Rightarrow> property option" where
  "getProperty this name' =
     (case properties this of
        None \<Rightarrow> None
      | Some props \<Rightarrow>
          find (\<lambda>prop. toLowerCase (property_name prop) = toLowerCase name') props)"

text \<open>\<open>if (!this.properties) this.properties = []; this.properties.push(prop)\<close>\<close>

definition push_property :: "property \<Rightarrow> 'a ecclass_scheme \<Rightarrow> 'a ecclass_scheme" where
  "push_property prop this =
     this\<lparr>properties := Some ((case properties this of None \<Rightarrow> [] | Some props \<Rightarrow> props) @ [prop])\<rparr>"

text \<open>The type argument of the primitive properties: \<open>type?: string | PrimitiveType\<close>.\<close>

definition correctPrimitiveType ::
  "env \<Rightarrow> (string + PrimitiveType) option \<Rightarrow> error + (string + PrimitiveType) option" where
  "correctPrimitiveType env type' =
     (case type' of
        Some (Inl s) \<Rightarrow>
          if s \<noteq> [] then map_sum id (map_option Inr) (parsePrimitiveType env s)
          else Inr type'
      | _ \<Rightarrow> Inr type')"

definition createPrimitiveProperty ::
  "env \<Rightarrow> string \<Rightarrow> (string + PrimitiveType) option \<Rightarrow> 'a ecclass_scheme
     \<Rightarrow> (property, 'a ecclass_scheme) outcome" where
  "createPrimitiveProperty env name' type' this =
     (if getProperty this name' \<noteq> None then (Inl (ECObjectsError DuplicateProperty), this)
      else case correctPrimitiveType env type' of
             Inl e \<Rightarrow> (Inl e, this)
           | Inr correctType \<Rightarrow>
               let primProp = PrimitiveProperty name' correctType
               in (Inr primProp, push_property primProp this))"

definition createPrimitiveArrayProperty ::
  "env \<Rightarrow> string \<Rightarrow> (string + PrimitiveType) option \<Rightarrow> 'a ecclass_scheme
     \<Rightarrow> (property, 'a ecclass_scheme) outcome" where
  "createPrimitiveArrayProperty env name' type' this =
     (if getProperty this name' \<noteq> None then (Inl (ECObjectsError DuplicateProperty), this)
      else case correctPrimitiveType env type' of
             Inl e \<Rightarrow> (Inl e, this)
           | Inr correctType \<Rightarrow>
               let primArrProp = PrimitiveArrayProperty name' correctType
               in (Inr primArrProp, push_property primArrProp this))"

text \<open>The type argument of the struct properties: \<open>type: string | SchemaChildInterface\<close>.\<close>

definition correctStructType :: "schema_slot \<Rightarrow> string + addr \<Rightarrow> error + addr option" where
  "correctStructType sch type' =
     (case type' of
        Inl s \<Rightarrow> schema_getChild sch (JString s)
      | Inr a \<Rightarrow> Inr (Some a))"

definition createStructProperty ::
  "string \<Rightarrow> string + addr \<Rightarrow> 'a ecclass_scheme \<Rightarrow> (property, 'a ecclass_scheme) outcome" where
  "createStructProperty name' type' this =
     (if getProperty this name' \<noteq> None then (Inl (ECObjectsError DuplicateProperty), this)
      else case correctStructType (schema this) type' of
             Inl e \<Rightarrow> (Inl e, this)
           | Inr None \<Rightarrow> (Inl (ECObjectsError ECOBJECTS_ERROR_BASE), this)
           | Inr (Some correctType) \<Rightarrow>
               let structProp = StructProperty name' correctType
               in (Inr structProp, push_property structProp this))"

definition createStructArrayProperty ::
  "string \<Rightarrow> string + addr \<Rightarrow> 'a ecclass_scheme \<Rightarrow> (property, 'a ecclass_scheme) outcome" where
  "createStructArrayProperty name' type' this =
     (if getProperty this name' \<noteq> None then (Inl (ECObjectsError DuplicateProperty), this)
      else case correctStructType (schema this) type' of
             Inl e \<Rightarrow> (Inl e, this)
           | Inr None \<Rightarrow> (Inl (ECObjectsError ECOBJECTS_ERROR_BASE), this)
           | Inr (Some correctType) \<Rightarrow>
               let structProp = StructArrayProperty name' correctType
               in (Inr structProp, push_property structProp this))"

text \<open>\<open>createNavigationProperty\<close> is written out twice, in EntityClass and in
  RelationshipClass, with the same body.\<close>

definition createNavigationProperty ::
  "env \<Rightarrow> string \<Rightarrow> string + addr \<Rightarrow> string + RelatedInstanceDirection \<Rightarrow> 'a ecclass_scheme
     \<Rightarrow> (property, 'a ecclass_scheme) outcome" where
  "createNavigationProperty env name' relationship direction this =
     (if getProperty this name' \<noteq> None then (Inl (ECObjectsError DuplicateProperty), this)
      else case relationship of
             Inl s \<Rightarrow> (Inl (ECObjectsError ECOBJECTS_ERROR_BASE), this)
           | Inr rel \<Rightarrow>
               (case (case direction of
                        Inl s \<Rightarrow> parseStrengthDirection env (JString s)
                      | Inr d \<Rightarrow> Inr d) of
                  Inl e \<Rightarrow> (Inl e, this)
                | Inr direction' \<Rightarrow>
                    let navProp = NavigationProperty name' rel direction'
                    in (Inr navProp, push_property navProp this)))"

definition EntityClass_createNavigationProperty ::
  "env \<Rightarrow> string \<Rightarrow> string + addr \<Rightarrow> string + RelatedInstanceDirection \<Rightarrow> 'a entity_class_scheme
     \<Rightarrow> (property, 'a entity_class_scheme) outcome" where
  "EntityClass_createNavigationProperty = createNavigationProperty"

definition RelationshipClass_createNavigationProperty ::
  "env \<Rightarrow> string \<Rightarrow> string + addr \<Rightarrow> string + RelatedInstanceDirection
     \<Rightarrow> 'a relationship_class_scheme \<Rightarrow> (property, 'a relationship_class_scheme) outcome" where
  "RelationshipClass_createNavigationProperty = createNavigationProperty"

text \<open>
  \<open>super.fromJson(jsonObj)\<close> of \<open>ECClass.fromJson\<close> is \<open>SchemaChild.fromJson\<close>: it runs on
  the fields of the base class and leaves the others as they are.
\<close>

definition SchemaChild_fromJson_on ::
  "env \<Rightarrow> jsobj \<Rightarrow> 'a ecclass_scheme \<Rightarrow> (unit, 'a ecclass_scheme) outcome" where
  "SchemaChild_fromJson_on env jsonObj this =
     (case SchemaChild_fromJson env jsonObj (schema_child.truncate this) of
        (r, super) \<Rightarrow> (r, this\<lparr>name := name super, schema := schema super\<rparr>))"

text \<open>In the branch without a schema object \<open>jsonObj.baseClass\<close> has passed the
  \<open>typeof\<close> test, so it is a string; it is stored as it is.\<close>

definition ECClass_fromJson ::
  "env \<Rightarrow> jsobj \<Rightarrow> 'a ecclass_scheme \<Rightarrow> (unit, 'a ecclass_scheme) outcome" where
  "ECClass_fromJson env jsonObj this =
     andThen (SchemaChild_fromJson_on env jsonObj this) (\<lambda>_ this.
     andThen (if truthy (field jsonObj ''modifier'')
              then (case parseClassModifier env (field jsonObj ''modifier'') of
                      Inl e \<Rightarrow> (Inl e, this)
                    | Inr m \<Rightarrow> (Inr (), this\<lparr>modifier := m\<rparr>))
              else (Inr (), this)) (\<lambda>_ this.
     if truthy (field jsonObj ''baseClass'') then
       if typeof (field jsonObj ''baseClass'') \<noteq> ''string''
       then (Inl (ECObjectsError InvalidECJson), this)
       else (case schema this of
               SchemaObject getChild \<Rightarrow>
                 (case getChild (field jsonObj ''baseClass'') of
                    None \<Rightarrow> (Inl (ECObjectsError InvalidECJson), this)
                  | Some baseClass' \<Rightarrow> (Inr (), this\<lparr>baseClass := Some (Inr baseClass')\<rparr>))
             | _ \<Rightarrow>
                 (case field jsonObj ''baseClass'' of
                    JString s \<Rightarrow> (Inr (), this\<lparr>baseClass := Some (Inl s)\<rparr>)
                  | _ \<Rightarrow> (Inr (), this)))
     else (Inr (), this)))"

section \<open>EntityClass, MixinClass, CustomAttributeClass\<close>

definition loadMixin ::
  "jsvalue \<Rightarrow> 'a entity_class_scheme \<Rightarrow> (unit, 'a entity_class_scheme) outcome" where
  "loadMixin mixinFullName this =
     (case schema_getChild (schema this) mixinFullName of
        Inl e \<Rightarrow> (Inl e, this)
      | Inr None \<Rightarrow> (Inl (ECObjectsError InvalidECJson), this)
      | Inr (Some tempMixin) \<Rightarrow>
          (Inr (), this\<lparr>mixins := Some ((case mixins this of None \<Rightarrow> [] | Some ms \<Rightarrow> ms)
                                         @ [tempMixin])\<rparr>))"

definition EntityClass_fromJson ::
  "env \<Rightarrow> jsobj \<Rightarrow> 'a entity_class_scheme \<Rightarrow> (unit, 'a entity_class_scheme) outcome" where
  "EntityClass_fromJson env jsonObj this =
     andThen (ECClass_fromJson env jsonObj this) (\<lambda>_ this.
     if truthy (field jsonObj ''mixin'') then
       if typeof (field jsonObj ''mixin'') = ''string''
       then loadMixin (field jsonObj ''mixin'') this
       else (case field jsonObj ''mixin'' of
               JArray mixinNames \<Rightarrow> forEach loadMixin mixinNames this
             | _ \<Rightarrow> (Inl (ECObjectsError InvalidECJson), this))
     else (Inr (), this))"

definition MixinClass_fromJson ::
  "env \<Rightarrow> jsobj \<Rightarrow> 'a mixin_class_scheme \<Rightarrow> (unit, 'a mixin_class_scheme) outcome" where
  "MixinClass_fromJson env jsonObj this =
     andThen (ECClass_fromJson env jsonObj this) (\<lambda>_ this.
     if truthy (field jsonObj ''appliesTo'') then
       (case schema_getChild (schema this) (field jsonObj ''appliesTo'') of
          Inl e \<Rightarrow> (Inl e, this)
        | Inr None \<Rightarrow> (Inl (ECObjectsError InvalidECJson), this)
        | Inr (Some tmpClass) \<Rightarrow> (Inr (), this\<lparr>appliesTo := Some (Inr tmpClass)\<rparr>))
     else (Inr (), this))"

definition CustomAttributeClass_fromJson ::
  "env \<Rightarrow> jsobj \<Rightarrow> 'a custom_attribute_class_scheme
     \<Rightarrow> (unit, 'a custom_attribute_class_scheme) outcome" where
  "CustomAttributeClass_fromJson env jsonObj this =
     andThen (ECClass_fromJson env jsonObj this) (\<lambda>_ this.
     if \<not> truthy (field jsonObj ''appliesTo'')
     then (Inl (ECObjectsError InvalidECJson), this)
     else if typeof (field jsonObj ''appliesTo'') \<noteq> ''string''
     then (Inl (ECObjectsError InvalidECJson), this)
     else (case parseCustomAttributeContainerType env (field jsonObj ''appliesTo'') of
             Inl e \<Rightarrow> (Inl e, this)
           | Inr t \<Rightarrow> (Inr (), this\<lparr>containerType := Some t\<rparr>)))"

section \<open>The store, RelationshipClass and RelationshipConstraint\<close>

text \<open>
  A relationship class and its two constraints refer to each other, so they are
  objects of a store: the address of an object is its position, and \<open>new\<close> takes the
  next free one.
\<close>

datatype obj =
    EntityClassObj entity_class
  | MixinClassObj mixin_class
  | StructClassObj ecclass
  | CustomAttributeClassObj custom_attribute_class
  | RelationshipClassObj relationship_class
  | RelationshipConstraintObj relationship_constraint
  | SchemaChildObj schema_child

type_synonym store = "obj list"

definition lookup :: "store \<Rightarrow> addr \<Rightarrow> obj option" where
  "lookup h a = (if a < length h then Some (h ! a) else None)"

text \<open>The run-time class of the object behind a reference.\<close>

definition instanceof_EntityClass :: "store \<Rightarrow> addr option \<Rightarrow> bool" where
  "instanceof_EntityClass h r =
     (case r of
        None \<Rightarrow> False
      | Some a \<Rightarrow> (case lookup h a of Some (EntityClassObj c) \<Rightarrow> True | _ \<Rightarrow> False))"

definition instanceof_RelationshipClass :: "store \<Rightarrow> addr option \<Rightarrow> bool" where
  "instanceof_RelationshipClass h r =
     (case r of
        None \<Rightarrow> False
      | Some a \<Rightarrow> (case lookup h a of Some (RelationshipClassObj c) \<Rightarrow> True | _ \<Rightarrow> False))"

text \<open>\<open>o.schema\<close> of an object of the store; a constraint has no such field.\<close>

fun obj_schema :: "obj \<Rightarrow> schema_slot" where
  "obj_schema (EntityClassObj c) = schema c"
| "obj_schema (MixinClassObj c) = schema c"
| "obj_schema (StructClassObj c) = schema c"
| "obj_schema (CustomAttributeClassObj c) = schema c"
| "obj_schema (RelationshipClassObj c) = schema c"
| "obj_schema (RelationshipConstraintObj c) = NoSchema"
| "obj_schema (SchemaChildObj c) = schema c"

definition new_RelationshipConstraint :: "addr \<Rightarrow> RelationshipEnd \<Rightarrow> relationship_constraint" where
  "new_RelationshipConstraint relClass relEnd =
     \<lparr> abstractConstraint_field = None,
       relationshipClass = relClass,
       relationshipEnd = relEnd,
       multiplicity = zeroOne,
       polymorphic = JBool False,
       roleLabel = JUndefined,
       constraintClasses = None \<rparr>"

text \<open>The constructor returns the address of the new class; the class takes the first
  free address and its constraints the next two, in the order of the two \<open>new\<close>.\<close>

definition new_RelationshipClass ::
  "env \<Rightarrow> string \<Rightarrow> StrengthType option \<Rightarrow> RelatedInstanceDirection option
     \<Rightarrow> ECClassModifier option \<Rightarrow> store \<Rightarrow> (addr, store) outcome" where
  "new_RelationshipClass env name' strength' strengthDirection' modifier' h =
     (case new_ECClass env name' modifier' of
        Inl e \<Rightarrow> (Inl e, h)
      | Inr super \<Rightarrow>
          let this = length h;
              source' = this + 1;
              target' = this + 2;
              relClass = \<lparr> name = name super, schema = schema super,
                           modifier = modifier super, baseClass = baseClass super,
                           properties = properties super,
                           strength = (case strength' of
                                         None \<Rightarrow> Referencing
                                       | Some s \<Rightarrow> if strength_truthy env s then s else Referencing),
                           strengthDirection = (case strengthDirection' of
                                         None \<Rightarrow> Forward
                                       | Some d \<Rightarrow> if direction_truthy env d then d else Forward),
                           source = source', target = target' \<rparr>
          in (Inr this,
              h @ [RelationshipClassObj relClass,
                   RelationshipConstraintObj (new_RelationshipConstraint this Source),
                   RelationshipConstraintObj (new_RelationshipConstraint this Target)]))"

definition RelationshipClass_fromJson ::
  "env \<Rightarrow> jsobj \<Rightarrow> 'a relationship_class_scheme
     \<Rightarrow> (unit, 'a relationship_class_scheme) outcome" where
  "RelationshipClass_fromJson env jsonObj this =
     andThen (ECClass_fromJson env jsonObj this) (\<lambda>_ this.
     andThen (if truthy (field jsonObj ''strength'')
              then (case parseStrength env (field jsonObj ''strength'') of
                      Inl e \<Rightarrow> (Inl e, this)
                    | Inr s \<Rightarrow> (Inr (), this\<lparr>strength := s\<rparr>))
              else (Inr (), this)) (\<lambda>_ this.
     if truthy (field jsonObj ''strengthDirection'')
     then (case parseStrengthDirection env (field jsonObj ''strengthDirection'') of
             Inl e \<Rightarrow> (Inl e, this)
           | Inr d \<Rightarrow> (Inr (), this\<lparr>strengthDirection := d\<rparr>))
     else (Inr (), this)))"

text \<open>The getter \<open>abstractConstraint\<close>; the setter writes \<open>abstractConstraint_field\<close>.\<close>

definition abstractConstraint :: "relationship_constraint \<Rightarrow> addr option" where
  "abstractConstraint this =
     (if abstractConstraint_field this \<noteq> None then abstractConstraint_field this
      else case constraintClasses this of
             None \<Rightarrow> abstractConstraint_field this
           | Some cs \<Rightarrow> if length cs = 1 then cs ! 0 else abstractConstraint_field this)"

text \<open>
  \<open>x as T\<close> is erased when the program is compiled, so \<open>areEntityConstraints\<close> is
  whether the collection has been initialized, and the test on the argument is whether
  it is \<open>undefined\<close>. Both branches of the last \<open>if\<close> push the argument.
\<close>

definition addClass ::
  "addr option \<Rightarrow> relationship_constraint \<Rightarrow> (unit, relationship_constraint) outcome" where
  "addClass constraint this =
     (let areEntityConstraints = (constraintClasses this \<noteq> None) in
      if areEntityConstraints \<and> constraint = None
      then (Inl (ECObjectsError InvalidECJson), this)
      else (Inr (), this\<lparr>constraintClasses :=
                            Some ((case constraintClasses this of None \<Rightarrow> [] | Some cs \<Rightarrow> cs)
                                  @ [constraint])\<rparr>))"

text \<open>\<open>this.relationshipClass.schema\<close>, read through the store.\<close>

definition relationshipClass_schema :: "store \<Rightarrow> relationship_constraint \<Rightarrow> error + schema_slot" where
  "relationshipClass_schema h this =
     (case lookup h (relationshipClass this) of
        None \<Rightarrow> Inl TypeError
      | Some relClass \<Rightarrow> Inr (obj_schema relClass))"

definition loadConstraintClass ::
  "store \<Rightarrow> jsvalue \<Rightarrow> relationship_constraint \<Rightarrow> (unit, relationship_constraint) outcome" where
  "loadConstraintClass h constraintClass this =
     (case relationshipClass_schema h this of
        Inl e \<Rightarrow> (Inl e, this)
      | Inr (SchemaObject getChild) \<Rightarrow>
          (case getChild constraintClass of
             None \<Rightarrow> (Inl (ECObjectsError InvalidECJson), this)
           | Some tempConstraintClass \<Rightarrow> addClass (Some tempConstraintClass) this)
      | Inr _ \<Rightarrow> (Inr (), this))"

definition RelationshipConstraint_fromJson ::
  "env \<Rightarrow> store \<Rightarrow> jsobj \<Rightarrow> relationship_constraint \<Rightarrow> (unit, relationship_constraint) outcome" where
  "RelationshipConstraint_fromJson env h jsonObj this0 =
     (let this1 = (if truthy (field jsonObj ''roleLabel'')
                   then this0\<lparr>roleLabel := field jsonObj ''roleLabel''\<rparr> else this0);
          this2 = (if truthy (field jsonObj ''polymorphic'')
                   then this1\<lparr>polymorphic := field jsonObj ''polymorphic''\<rparr> else this1)
      in
      andThen (if truthy (field jsonObj ''multiplicity'')
               then (case RelationshipMultiplicity_fromString env (field jsonObj ''multiplicity'') of
                       Inl e \<Rightarrow> (Inl e, this2)
                     | Inr None \<Rightarrow> (Inl (ECObjectsError InvalidMultiplicity), this2)
                     | Inr (Some multTmp) \<Rightarrow> (Inr (), this2\<lparr>multiplicity := multTmp\<rparr>))
               else (Inr (), this2)) (\<lambda>_ this.
      andThen (if truthy (field jsonObj ''abstractConstraint'') then
                 if typeof (field jsonObj ''abstractConstraint'') \<noteq> ''string''
                 then (Inl (ECObjectsError InvalidECJson), this)
                 else (case relationshipClass_schema h this of
                         Inl e \<Rightarrow> (Inl e, this)
                       | Inr (SchemaObject getChild) \<Rightarrow>
                           (case getChild (field jsonObj ''abstractConstraint'') of
                              None \<Rightarrow> (Inl (ECObjectsError InvalidECJson), this)
                            | Some tempAbstractConstraint \<Rightarrow>
                                (Inr (), this\<lparr>abstractConstraint_field :=
                                                 Some tempAbstractConstraint\<rparr>))
                       | Inr _ \<Rightarrow> (Inr (), this))
               else (Inr (), this)) (\<lambda>_ this.
      if truthy (field jsonObj ''constraintClasses'') then
        (case field jsonObj ''constraintClasses'' of
           JArray cs \<Rightarrow> forEach (loadConstraintClass h) cs this
         | _ \<Rightarrow> (Inl (ECObjectsError InvalidECJson), this))
      else (Inr (), this))))"

section \<open>Sample collaborators and objects\<close>

text \<open>
  For evaluating the model on concrete inputs: a base class that keeps the name it is
  given and populates nothing, numeric enumerations whose first member is 0, small
  parser tables, and a schema with an entity class, two mixins and a relationship
  class at the addresses 0 to 3 of the store.
\<close>

definition sample_env :: env where
  "sample_env =
     \<lparr> SchemaChild_new = (\<lambda>n. Inr \<lparr> name = n, schema = NoSchema \<rparr>),
       SchemaChild_fromJson = (\<lambda>jsonObj super. (Inr (), super)),
       modifier_truthy = (\<lambda>m. m \<noteq> ECClassModifier_None),
       strength_truthy = (\<lambda>s. s \<noteq> Referencing),
       direction_truthy = (\<lambda>d. True),
       parsePrimitiveType = (\<lambda>s. if s = ''string'' then Inr (Some (PrimitiveType_member 0))
                                   else Inl (ECObjectsError (OtherStatus 0))),
       parseClassModifier = (\<lambda>v. if v = JString ''Abstract'' then Inr ECClassModifier_Abstract
                                   else if v = JString ''Sealed'' then Inr ECClassModifier_Sealed
                                   else if v = JString ''None'' then Inr ECClassModifier_None
                                   else Inl (ECObjectsError (OtherStatus 1))),
       parseStrength = (\<lambda>v. if v = JString ''Referencing'' then Inr Referencing
                              else Inl (ECObjectsError (OtherStatus 2))),
       parseStrengthDirection = (\<lambda>v. if v = JString ''Forward'' then Inr Forward
                                       else Inl (ECObjectsError (OtherStatus 3))),
       parseCustomAttributeContainerType = (\<lambda>v. Inl (ECObjectsError (OtherStatus 4))),
       RelationshipMultiplicity_fromString =
         (\<lambda>v. if v = JString ''(0..1)'' then Inr (Some (RelationshipMultiplicity 0 (Some 1)))
              else if v = JString ''(0..*)'' then Inr (Some (RelationshipMultiplicity 0 None))
              else if v = JString ''(1..1)'' then Inr (Some (RelationshipMultiplicity 1 (Some 1)))
              else if v = JString ''(1..*)'' then Inr (Some (RelationshipMultiplicity 1 None))
              else Inr None) \<rparr>"

definition sample_getChild :: "jsvalue \<Rightarrow> addr option" where
  "sample_getChild v =
     (if v = JString ''Pipe'' then Some 0
      else if v = JString ''IHasFlow'' then Some 1
      else if v = JString ''IHasLabel'' then Some 2
      else if v = JString ''PipeConnects'' then Some 3
      else None)"

definition sample_entity :: entity_class where
  "sample_entity =
     \<lparr> name = ''Pipe'', schema = SchemaObject sample_getChild,
       modifier = ECClassModifier_None, baseClass = None,
       properties = Some [PrimitiveProperty ''Width'' None, StructProperty ''Origin'' 7],
       mixins = None \<rparr>"

definition sample_mixin :: "string \<Rightarrow> mixin_class" where
  "sample_mixin n =
     \<lparr> name = n, schema = SchemaObject sample_getChild,
       modifier = ECClassModifier_Abstract, baseClass = None, properties = None,
       appliesTo = None \<rparr>"

definition sample_customAttribute :: custom_attribute_class where
  "sample_customAttribute =
     \<lparr> name = ''Units'', schema = SchemaObject sample_getChild,
       modifier = ECClassModifier_None, baseClass = None, properties = None,
       containerType = None \<rparr>"

definition sample_relationship :: relationship_class where
  "sample_relationship =
     \<lparr> name = ''PipeConnects'', schema = SchemaObject sample_getChild,
       modifier = ECClassModifier_None, baseClass = None,
       properties = Some [NavigationProperty ''From'' 3 Forward],
       strength = Referencing, strengthDirection = Forward, source = 4, target = 5 \<rparr>"

definition sample_store :: store where
  "sample_store =
     [EntityClassObj sample_entity,
      MixinClassObj (sample_mixin ''IHasFlow''),
      MixinClassObj (sample_mixin ''IHasLabel''),
      RelationshipClassObj sample_relationship,
      RelationshipConstraintObj (new_RelationshipConstraint 3 Source),
      RelationshipConstraintObj (new_RelationshipConstraint 3 Target)]"

section \<open>Properties of a class\<close>

lemma find_distinct_key:
  "distinct (map f xs) \<Longrightarrow> p \<in> set xs \<Longrightarrow> find (\<lambda>q. f q = f p) xs = Some p"
proof (induction xs)
  case Nil
  then show ?case by simp
next
  case (Cons x xs)
  show ?case
  proof (cases "x = p")
    case True
    then show ?thesis by simp
  next
    case False
    with Cons.prems have "p \<in> set xs" by simp
    moreover from this Cons.prems have "f x \<noteq> f p" by auto
    ultimately show ?thesis using Cons by simp
  qed
qed

lemma getProperty_baseClass [simp]:
  "getProperty (this\<lparr>baseClass := b\<rparr>) n = getProperty this n"
  by (simp add: getProperty_def)

text \<open>
  C8. \<open>getProperty\<close> looks a name up without regard to case and only in the class's own
  property list: when the list holds a property \<open>p\<close>, every name that lower-cases to the
  lower-cased name of \<open>p\<close> finds a property, the same one as the name of \<open>p\<close> itself
  finds; where the names of the list are pairwise different without regard to case (the
  invariant that the \<open>create\<close> methods keep) it is \<open>p\<close> itself. The base class plays
  no part: a name that no local property has is not found, whatever \<open>baseClass\<close> is.
\<close>

theorem getProperty_case_insensitive:
  assumes props: "properties this = Some props"
      and mem: "p \<in> set props"
      and variant: "toLowerCase name' = toLowerCase (property_name p)"
  shows "getProperty this name' = getProperty this (property_name p)
       \<and> getProperty this name' \<noteq> None
       \<and> (distinct (map (\<lambda>q. toLowerCase (property_name q)) props)
            \<longrightarrow> getProperty this name' = Some p)
       \<and> getProperty (this\<lparr>baseClass := b\<rparr>) name' = getProperty this name'
       \<and> ((\<forall>q \<in> set props. toLowerCase (property_name q) \<noteq> toLowerCase other)
            \<longrightarrow> getProperty (this\<lparr>baseClass := b\<rparr>) other = None)"
proof -
  have same: "getProperty this name' = getProperty this (property_name p)"
    using variant by (simp add: getProperty_def split: option.splits)
  have found: "getProperty this name' \<noteq> None"
    using props mem variant by (auto simp: getProperty_def find_None_iff)
  have the_one: "getProperty this name' = Some p"
    if "distinct (map (\<lambda>q. toLowerCase (property_name q)) props)"
    using find_distinct_key [OF that mem] props variant by (simp add: getProperty_def)
  have local: "getProperty (this\<lparr>baseClass := b\<rparr>) other = None"
    if "\<forall>q \<in> set props. toLowerCase (property_name q) \<noteq> toLowerCase other"
    using that props by (simp add: getProperty_def find_None_iff)
  show ?thesis using same found the_one local by simp
qed

theorem getProperty_case_insensitive_witness:
  "getProperty sample_entity ''WIDTH'' = Some (PrimitiveProperty ''Width'' None)
   \<and> getProperty sample_entity ''width'' = Some (PrimitiveProperty ''Width'' None)
   \<and> getProperty (sample_entity\<lparr>baseClass := Some (Inr 9)\<rparr>) ''Height'' = None"
proof -
  have props: "properties sample_entity
                 = Some [PrimitiveProperty ''Width'' None, StructProperty ''Origin'' 7]"
    by (simp add: sample_entity_def)
  have mem: "PrimitiveProperty ''Width'' None
               \<in> set [PrimitiveProperty ''Width'' None, StructProperty ''Origin'' 7]"
    by simp
  have up: "toLowerCase ''WIDTH'' = toLowerCase (property_name (PrimitiveProperty ''Width'' None))"
    by (simp add: toLowerCase_def toLowerCase_char_def)
  have low: "toLowerCase ''width'' = toLowerCase (property_name (PrimitiveProperty ''Width'' None))"
    by (simp add: toLowerCase_def toLowerCase_char_def)
  have dist: "distinct (map (\<lambda>q. toLowerCase (property_name q))
                 [PrimitiveProperty ''Width'' None, StructProperty ''Origin'' 7])"
    by (simp add: toLowerCase_def toLowerCase_char_def)
  have none: "\<forall>q \<in> set [PrimitiveProperty ''Width'' None, StructProperty ''Origin'' 7].
                 toLowerCase (property_name q) \<noteq> toLowerCase ''Height''"
    by (simp add: toLowerCase_def toLowerCase_char_def)
  note upper = getProperty_case_insensitive [OF props mem up, of "Some (Inr 9)" "''Height''"]
  note lower = getProperty_case_insensitive [OF props mem low, of "Some (Inr 9)" "''Height''"]
  from upper dist have "getProperty sample_entity ''WIDTH'' = Some (PrimitiveProperty ''Width'' None)"
    by blast
  moreover from lower dist
  have "getProperty sample_entity ''width'' = Some (PrimitiveProperty ''Width'' None)"
    by blast
  moreover from upper none
  have "getProperty (sample_entity\<lparr>baseClass := Some (Inr 9)\<rparr>) ''Height'' = None"
    by blast
  ultimately show ?thesis by blast
qed

text \<open>
  C1. Each of the property-creation methods (\<open>createPrimitiveProperty\<close>,
  \<open>createPrimitiveArrayProperty\<close>, \<open>createStructProperty\<close>,
  \<open>createStructArrayProperty\<close>, and \<open>createNavigationProperty\<close> of EntityClass and of
  RelationshipClass), called with a name that equals the name of a property of the
  class's own list without regard to case, fails with DuplicateProperty and leaves the
  class, its property list included, as it was.
\<close>

theorem createProperty_duplicate:
  "(properties this = Some props \<and> p \<in> set props
      \<and> toLowerCase (property_name p) = toLowerCase name'
    \<longrightarrow> createPrimitiveProperty env name' type' this
          = (Inl (ECObjectsError DuplicateProperty), this)
      \<and> createPrimitiveArrayProperty env name' type' this
          = (Inl (ECObjectsError DuplicateProperty), this)
      \<and> createStructProperty name' structType this
          = (Inl (ECObjectsError DuplicateProperty), this)
      \<and> createStructArrayProperty name' structType this
          = (Inl (ECObjectsError DuplicateProperty), this))
   \<and> (properties thisE = Some propsE \<and> pE \<in> set propsE
      \<and> toLowerCase (property_name pE) = toLowerCase name'
    \<longrightarrow> EntityClass_createNavigationProperty env name' relationship direction thisE
          = (Inl (ECObjectsError DuplicateProperty), thisE))
   \<and> (properties thisR = Some propsR \<and> pR \<in> set propsR
      \<and> toLowerCase (property_name pR) = toLowerCase name'
    \<longrightarrow> RelationshipClass_createNavigationProperty env name' relationship direction thisR
          = (Inl (ECObjectsError DuplicateProperty), thisR))"
proof -
  have dup: "getProperty c name' \<noteq> None"
    if "properties c = Some ps" "q \<in> set ps"
       "toLowerCase (property_name q) = toLowerCase name'"
    for c :: "'z ecclass_scheme" and ps q
    using that by (auto simp: getProperty_def find_None_iff)
  show ?thesis
    by (auto simp: createPrimitiveProperty_def createPrimitiveArrayProperty_def
          createStructProperty_def createStructArrayProperty_def
          EntityClass_createNavigationProperty_def RelationshipClass_createNavigationProperty_def
          createNavigationProperty_def dest: dup)
qed


theorem createProperty_duplicate_witness:
  "createPrimitiveProperty sample_env ''WIDTH'' None sample_entity
     = (Inl (ECObjectsError DuplicateProperty), sample_entity)
   \<and> createPrimitiveArrayProperty sample_env ''WIDTH'' None sample_entity
     = (Inl (ECObjectsError DuplicateProperty), sample_entity)
   \<and> createStructProperty ''WIDTH'' (Inr 7) sample_entity
     = (Inl (ECObjectsError DuplicateProperty), sample_entity)
   \<and> createStructArrayProperty ''WIDTH'' (Inr 7) sample_entity
     = (Inl (ECObjectsError DuplicateProperty), sample_entity)
   \<and> EntityClass_createNavigationProperty sample_env ''origin'' (Inr 3) (Inr Forward) sample_entity
     = (Inl (ECObjectsError DuplicateProperty), sample_entity)
   \<and> RelationshipClass_createNavigationProperty sample_env ''FROM'' (Inr 3) (Inr Forward)
        sample_relationship
     = (Inl (ECObjectsError DuplicateProperty), sample_relationship)"
proof -
  have width: "properties sample_entity
                 = Some [PrimitiveProperty ''Width'' None, StructProperty ''Origin'' 7]
       \<and> PrimitiveProperty ''Width'' None
           \<in> set [PrimitiveProperty ''Width'' None, StructProperty ''Origin'' 7]
       \<and> toLowerCase (property_name (PrimitiveProperty ''Width'' None)) = toLowerCase ''WIDTH''"
    by (simp add: sample_entity_def toLowerCase_def toLowerCase_char_def)
  have origin: "properties sample_entity
                 = Some [PrimitiveProperty ''Width'' None, StructProperty ''Origin'' 7]
       \<and> StructProperty ''Origin'' 7
           \<in> set [PrimitiveProperty ''Width'' None, StructProperty ''Origin'' 7]
       \<and> toLowerCase (property_name (StructProperty ''Origin'' 7)) = toLowerCase ''origin''"
    by (simp add: sample_entity_def toLowerCase_def toLowerCase_char_def)
  have nav: "properties sample_relationship = Some [NavigationProperty ''From'' 3 Forward]
       \<and> NavigationProperty ''From'' 3 Forward \<in> set [NavigationProperty ''From'' 3 Forward]
       \<and> toLowerCase (property_name (NavigationProperty ''From'' 3 Forward)) = toLowerCase ''FROM''"
    by (simp add: sample_relationship_def toLowerCase_def toLowerCase_char_def)
  note a = createProperty_duplicate
      [where this = sample_entity and name' = "''WIDTH''" and env = sample_env
         and p = "PrimitiveProperty ''Width'' None"
         and props = "[PrimitiveProperty ''Width'' None, StructProperty ''Origin'' 7]"
         and type' = None and structType = "Inr 7"]
  note b = createProperty_duplicate
      [where thisE = sample_entity and name' = "''origin''" and env = sample_env
         and pE = "StructProperty ''Origin'' 7"
         and propsE = "[PrimitiveProperty ''Width'' None, StructProperty ''Origin'' 7]"
         and relationship = "Inr 3" and direction = "Inr Forward"]
  note c = createProperty_duplicate
      [where thisR = sample_relationship and name' = "''FROM''" and env = sample_env
         and pR = "NavigationProperty ''From'' 3 Forward"
         and propsR = "[NavigationProperty ''From'' 3 Forward]"
         and relationship = "Inr 3" and direction = "Inr Forward"]
  note a1 = a [THEN conjunct1, THEN mp, OF width]
  note b2 = b [THEN conjunct2, THEN conjunct1, THEN mp, OF origin]
  note c3 = c [THEN conjunct2, THEN conjunct2, THEN mp, OF nav]
  from a1 b2 c3 show ?thesis by (intro conjI) (elim conjE, assumption)+
qed

section \<open>Relationship constraints\<close>

text \<open>
  C3. The getter \<open>abstractConstraint\<close> returns the abstract constraint that was set when
  there is one; when none was set and exactly one constraint class is registered, it
  returns that class; when none was set and the constraint classes are not exactly one,
  it returns the absent value.
\<close>

theorem abstractConstraint_getter:
  "(abstractConstraint_field this = Some a \<longrightarrow> abstractConstraint this = Some a)
   \<and> (abstractConstraint_field this = None \<and> constraintClasses this = Some [c]
        \<longrightarrow> abstractConstraint this = c)
   \<and> (abstractConstraint_field this = None \<and> (\<forall>c. constraintClasses this \<noteq> Some [c])
        \<longrightarrow> abstractConstraint this = None)"
proof -
  have single: "cs = [cs ! 0]" if "length cs = 1" for cs :: "addr option list"
    using that by (cases cs) simp_all
  have other: "abstractConstraint this = None"
    if "abstractConstraint_field this = None" "\<forall>c. constraintClasses this \<noteq> Some [c]"
  proof (cases "constraintClasses this")
    case None
    with that show ?thesis by (simp add: abstractConstraint_def)
  next
    case (Some cs)
    with that(2) single [of cs] have "length cs \<noteq> 1" by metis
    with Some that(1) show ?thesis by (simp add: abstractConstraint_def)
  qed
  show ?thesis using other by (simp add: abstractConstraint_def)
qed

theorem abstractConstraint_getter_witness:
  "abstractConstraint ((new_RelationshipConstraint 3 Source)
       \<lparr>abstractConstraint_field := Some 0, constraintClasses := Some [Some 1, Some 2]\<rparr>) = Some 0
   \<and> abstractConstraint ((new_RelationshipConstraint 3 Source)
       \<lparr>constraintClasses := Some [Some 0]\<rparr>) = Some 0
   \<and> abstractConstraint ((new_RelationshipConstraint 3 Source)
       \<lparr>constraintClasses := Some [Some 1, Some 2]\<rparr>) = None"
proof -
  let ?c = "new_RelationshipConstraint 3 Source"
  have explicit: "abstractConstraint_field
      (?c\<lparr>abstractConstraint_field := Some 0, constraintClasses := Some [Some 1, Some 2]\<rparr>) = Some 0"
    by simp
  have single: "abstractConstraint_field (?c\<lparr>constraintClasses := Some [Some 0]\<rparr>) = None
      \<and> constraintClasses (?c\<lparr>constraintClasses := Some [Some 0]\<rparr>) = Some [Some 0]"
    by (simp add: new_RelationshipConstraint_def)
  have two: "abstractConstraint_field (?c\<lparr>constraintClasses := Some [Some 1, Some 2]\<rparr>) = None
      \<and> (\<forall>c. constraintClasses (?c\<lparr>constraintClasses := Some [Some 1, Some 2]\<rparr>) \<noteq> Some [c])"
    by (simp add: new_RelationshipConstraint_def)
  note g1 = abstractConstraint_getter
      [where this = "?c\<lparr>abstractConstraint_field := Some 0,
                         constraintClasses := Some [Some 1, Some 2]\<rparr>" and a = 0,
       THEN conjunct1, THEN mp, OF explicit]
  note g2 = abstractConstraint_getter
      [where this = "?c\<lparr>constraintClasses := Some [Some 0]\<rparr>" and c = "Some 0",
       THEN conjunct2, THEN conjunct1, THEN mp, OF single]
  note g3 = abstractConstraint_getter
      [where this = "?c\<lparr>constraintClasses := Some [Some 1, Some 2]\<rparr>",
       THEN conjunct2, THEN conjunct2, THEN mp, OF two]
  from g1 g2 g3 show ?thesis by (intro conjI)
qed

text \<open>
  C4. A RelationshipClass constructed without the strength and the direction arguments
  (the constructor of the base class having accepted the name) has the strength
  Referencing and the direction Forward; its \<open>source\<close> and \<open>target\<close> are two different
  RelationshipConstraint objects of the store after the construction, each with
  \<open>relationshipClass\<close> the new class, the one with the end Source and the other with the
  end Target. The objects that were in the store stay as they were.
\<close>

theorem new_RelationshipClass_defaults:
  assumes super: "SchemaChild_new env name' = Inr super"
  shows "\<exists>relClass src tgt h'.
           new_RelationshipClass env name' None None modifier' h = (Inr (length h), h')
         \<and> lookup h' (length h) = Some (RelationshipClassObj relClass)
         \<and> strength relClass = Referencing
         \<and> strengthDirection relClass = Forward
         \<and> lookup h' (source relClass) = Some (RelationshipConstraintObj src)
         \<and> relationshipClass src = length h \<and> relationshipEnd src = Source
         \<and> lookup h' (target relClass) = Some (RelationshipConstraintObj tgt)
         \<and> relationshipClass tgt = length h \<and> relationshipEnd tgt = Target
         \<and> source relClass \<noteq> target relClass
         \<and> (\<forall>a < length h. lookup h' a = lookup h a)"
  using super
  by (simp add: new_RelationshipClass_def new_ECClass_def Let_def lookup_def
        new_RelationshipConstraint_def nth_append)

theorem new_RelationshipClass_defaults_witness:
  "SchemaChild_new sample_env ''Joins'' = Inr \<lparr> name = ''Joins'', schema = NoSchema \<rparr>
   \<and> (\<exists>relClass src tgt h'.
           new_RelationshipClass sample_env ''Joins'' None None None sample_store = (Inr 6, h')
         \<and> lookup h' 6 = Some (RelationshipClassObj relClass)
         \<and> strength relClass = Referencing
         \<and> strengthDirection relClass = Forward
         \<and> lookup h' (source relClass) = Some (RelationshipConstraintObj src)
         \<and> relationshipClass src = 6 \<and> relationshipEnd src = Source
         \<and> lookup h' (target relClass) = Some (RelationshipConstraintObj tgt)
         \<and> relationshipClass tgt = 6 \<and> relationshipEnd tgt = Target
         \<and> source relClass \<noteq> target relClass
         \<and> (\<forall>a < 6. lookup h' a = lookup sample_store a))"
proof -
  have super: "SchemaChild_new sample_env ''Joins'' = Inr \<lparr> name = ''Joins'', schema = NoSchema \<rparr>"
    by (simp add: sample_env_def)
  have len: "length sample_store = 6"
    by (simp add: sample_store_def)
  from new_RelationshipClass_defaults [OF super, of None sample_store] super len
  show ?thesis by simp
qed

text \<open>
  C2. The claim asks \<open>addClass\<close> to refuse, with InvalidECJson, a Relationship-kind class
  on a constraint whose collection holds Entity-kind classes (and the other way round).
  The source attempts the first test: under \<open>areEntityConstraints\<close> it throws
  InvalidECJson when \<open>undefined === constraint as EntityClassInterface\<close>. The casts are
  erased when the program is compiled, so the test only refuses \<open>undefined\<close>. In the
  sample store address 0 is the entity class Pipe and address 3 the relationship class
  PipeConnects: on the collection \<open>[Pipe]\<close>, \<open>addClass(PipeConnects)\<close> ends normally and
  leaves the mixed collection \<open>[Pipe, PipeConnects]\<close>.
\<close>

theorem addClass_entity_collection_relationship_argument:
  "instanceof_EntityClass sample_store (Some 0)
   \<and> instanceof_RelationshipClass sample_store (Some 3)
   \<and> addClass (Some 3) ((new_RelationshipConstraint 3 Source)\<lparr>constraintClasses := Some [Some 0]\<rparr>)
       = (Inr (), (new_RelationshipConstraint 3 Source)
                     \<lparr>constraintClasses := Some [Some 0, Some 3]\<rparr>)"
  by (simp add: instanceof_RelationshipClass_def instanceof_EntityClass_def lookup_def
        sample_store_def addClass_def)

text \<open>
  The other direction has no test at all (the source leaves it as a TODO): an entity
  class added to a collection of relationship classes is appended as well.
\<close>

lemma addClass_relationship_collection_entity_argument:
  "instanceof_RelationshipClass sample_store (Some 3)
   \<and> instanceof_EntityClass sample_store (Some 0)
   \<and> addClass (Some 0) ((new_RelationshipConstraint 3 Source)\<lparr>constraintClasses := Some [Some 3]\<rparr>)
       = (Inr (), (new_RelationshipConstraint 3 Source)
                     \<lparr>constraintClasses := Some [Some 3, Some 0]\<rparr>)"
  by (simp add: instanceof_RelationshipClass_def instanceof_EntityClass_def lookup_def
        sample_store_def addClass_def)

text \<open>
  What \<open>addClass\<close> does at run time, whatever the kinds: every argument that is not
  \<open>undefined\<close> is appended, the collection starting empty on first use, and \<open>undefined\<close>
  is refused with InvalidECJson once the collection is initialized.
\<close>

lemma addClass_defined:
  "addClass (Some a) this
     = (Inr (), this\<lparr>constraintClasses :=
                       Some ((case constraintClasses this of None \<Rightarrow> [] | Some cs \<Rightarrow> cs)
                             @ [Some a])\<rparr>)"
  by (simp add: addClass_def)

lemma addClass_undefined:
  "constraintClasses this = Some cs
     \<Longrightarrow> addClass None this = (Inl (ECObjectsError InvalidECJson), this)"
  by (simp add: addClass_def)

section \<open>Deserialization of a constraint\<close>

lemma forEach_preserves:
  assumes step: "\<And>x s. g (snd (f x s)) = g s"
  shows "g (snd (forEach f xs s)) = g s"
proof (induction xs arbitrary: s)
  case Nil
  show ?case by simp
next
  case (Cons x xs)
  obtain r s' where fx: "f x s = (r, s')" by (cases "f x s")
  with step [of x s] have keep: "g s' = g s" by simp
  show ?case
  proof (cases r)
    case (Inl e)
    with fx keep show ?thesis by simp
  next
    case (Inr u)
    with fx keep Cons.IH [of s'] show ?thesis by simp
  qed
qed

lemma forEach_error:
  assumes step: "\<And>x s e. fst (f x s) = Inl e \<Longrightarrow> P e"
      and fails: "fst (forEach f xs s) = Inl e"
  shows "P e"
  using fails
proof (induction xs arbitrary: s)
  case Nil
  then show ?case by simp
next
  case (Cons x xs)
  obtain r s' where fx: "f x s = (r, s')" by (cases "f x s")
  show ?case
  proof (cases r)
    case (Inl e')
    with fx Cons.prems have "e' = e" by simp
    with fx Inl step [of x s e] show ?thesis by simp
  next
    case (Inr u)
    with fx Cons.prems have "fst (forEach f xs s') = Inl e" by simp
    then show ?thesis by (rule Cons.IH)
  qed
qed

lemma addClass_frame:
  "roleLabel (snd (addClass c this)) = roleLabel this"
  "polymorphic (snd (addClass c this)) = polymorphic this"
  "multiplicity (snd (addClass c this)) = multiplicity this"
  by (simp_all add: addClass_def)

lemma addClass_error:
  "fst (addClass c this) = Inl e \<Longrightarrow> e = ECObjectsError InvalidECJson"
  by (simp add: addClass_def split: if_splits)

lemma loadConstraintClass_frame:
  "roleLabel (snd (loadConstraintClass h v this)) = roleLabel this"
  "polymorphic (snd (loadConstraintClass h v this)) = polymorphic this"
  "multiplicity (snd (loadConstraintClass h v this)) = multiplicity this"
  by (simp_all add: loadConstraintClass_def addClass_frame
        split: sum.splits schema_slot.splits option.splits)

lemma loadConstraintClass_error:
  "fst (loadConstraintClass h v this) = Inl e \<Longrightarrow> e \<noteq> ECObjectsError InvalidMultiplicity"
  by (auto simp: loadConstraintClass_def relationshipClass_schema_def
        split: sum.splits schema_slot.splits option.splits dest: addClass_error)

lemma forEach_loadConstraintClass_error:
  "fst (forEach (loadConstraintClass h) cs this) = Inl e
     \<Longrightarrow> e \<noteq> ECObjectsError InvalidMultiplicity"
  by (rule forEach_error [where P = "\<lambda>e. e \<noteq> ECObjectsError InvalidMultiplicity"])
     (rule loadConstraintClass_error)

lemma snd_andThen_preserves:
  assumes "g (snd r) = v" and "\<And>a s. g (snd (f a s)) = g s"
  shows "g (snd (andThen r f)) = v"
proof (cases r)
  case (Pair x s)
  with assms show ?thesis by (cases x) (simp_all add: andThen_def)
qed

lemma fst_andThen_error:
  assumes "fst (andThen r f) = Inl e"
      and "fst r = Inl e \<Longrightarrow> P" and "\<And>a s. fst (f a s) = Inl e \<Longrightarrow> P"
  shows P
proof (cases r)
  case (Pair x s)
  with assms show ?thesis by (cases x) (simp_all add: andThen_def)
qed

lemma RelationshipConstraint_fromJson_roleLabel:
  "roleLabel (snd (RelationshipConstraint_fromJson env h jsonObj this))
     = (if truthy (field jsonObj ''roleLabel'') then field jsonObj ''roleLabel''
        else roleLabel this)"
  unfolding RelationshipConstraint_fromJson_def Let_def
  by (intro snd_andThen_preserves [where g = roleLabel])
     (simp_all add: forEach_preserves loadConstraintClass_frame
        split: sum.splits schema_slot.splits option.splits jsvalue.splits)

lemma RelationshipConstraint_fromJson_polymorphic:
  "polymorphic (snd (RelationshipConstraint_fromJson env h jsonObj this))
     = (if truthy (field jsonObj ''polymorphic'') then field jsonObj ''polymorphic''
        else polymorphic this)"
  unfolding RelationshipConstraint_fromJson_def Let_def
  by (intro snd_andThen_preserves [where g = polymorphic])
     (simp_all add: forEach_preserves loadConstraintClass_frame
        split: sum.splits schema_slot.splits option.splits jsvalue.splits)

lemma multiplicity_after_fromJson:
  "multiplicity (snd (RelationshipConstraint_fromJson env h jsonObj this))
     = (if truthy (field jsonObj ''multiplicity'')
        then (case RelationshipMultiplicity_fromString env (field jsonObj ''multiplicity'') of
                Inr (Some multTmp) \<Rightarrow> multTmp
              | _ \<Rightarrow> multiplicity this)
        else multiplicity this)"
  unfolding RelationshipConstraint_fromJson_def Let_def
  by (intro snd_andThen_preserves [where g = multiplicity])
     (simp_all add: forEach_preserves loadConstraintClass_frame
        split: sum.splits schema_slot.splits option.splits jsvalue.splits)

lemma RelationshipConstraint_fromJson_unparseable:
  assumes "truthy (field jsonObj ''multiplicity'')"
      and "RelationshipMultiplicity_fromString env (field jsonObj ''multiplicity'') = Inr None"
  shows "fst (RelationshipConstraint_fromJson env h jsonObj this)
           = Inl (ECObjectsError InvalidMultiplicity)"
  using assms by (simp add: RelationshipConstraint_fromJson_def Let_def andThen_def)

lemma RelationshipConstraint_fromJson_skipped:
  assumes falsy: "\<not> truthy (field jsonObj ''multiplicity'')"
  shows "fst (RelationshipConstraint_fromJson env h jsonObj this)
           \<noteq> Inl (ECObjectsError InvalidMultiplicity)"
proof
  assume "fst (RelationshipConstraint_fromJson env h jsonObj this)
            = Inl (ECObjectsError InvalidMultiplicity)"
  then show False
    unfolding RelationshipConstraint_fromJson_def Let_def
    apply (elim fst_andThen_error)
    subgoal using falsy by simp
    subgoal by (auto simp: relationshipClass_schema_def
                  split: if_splits sum.splits schema_slot.splits option.splits)
    subgoal by (auto split: if_splits jsvalue.splits dest: forEach_loadConstraintClass_error)
    done
qed

text \<open>
  C10. \<open>RelationshipConstraint.fromJson\<close> copies \<open>polymorphic\<close> and \<open>roleLabel\<close> only
  when the value in the input is truthy: with \<open>polymorphic: false\<close>, with
  \<open>roleLabel: ""\<close>, or with any other falsy value, the field of the constraint is after
  the call what it was before, whether the call ends normally or throws later; a truthy
  value is copied as it is.
\<close>

theorem RelationshipConstraint_fromJson_truthy_only:
  "(\<not> truthy (field jsonObj ''polymorphic'')
      \<longrightarrow> polymorphic (snd (RelationshipConstraint_fromJson env h jsonObj this))
            = polymorphic this)
   \<and> (\<not> truthy (field jsonObj ''roleLabel'')
      \<longrightarrow> roleLabel (snd (RelationshipConstraint_fromJson env h jsonObj this)) = roleLabel this)
   \<and> (truthy (field jsonObj ''polymorphic'')
      \<longrightarrow> polymorphic (snd (RelationshipConstraint_fromJson env h jsonObj this))
            = field jsonObj ''polymorphic'')
   \<and> (truthy (field jsonObj ''roleLabel'')
      \<longrightarrow> roleLabel (snd (RelationshipConstraint_fromJson env h jsonObj this))
            = field jsonObj ''roleLabel'')"
  by (simp add: RelationshipConstraint_fromJson_roleLabel
        RelationshipConstraint_fromJson_polymorphic)

theorem RelationshipConstraint_fromJson_truthy_only_witness:
  "polymorphic (snd (RelationshipConstraint_fromJson sample_env sample_store
        [(''polymorphic'', JBool False), (''roleLabel'', JString [])]
        ((new_RelationshipConstraint 3 Source)
           \<lparr>polymorphic := JBool True, roleLabel := JString ''owns''\<rparr>))) = JBool True
   \<and> roleLabel (snd (RelationshipConstraint_fromJson sample_env sample_store
        [(''polymorphic'', JBool False), (''roleLabel'', JString [])]
        ((new_RelationshipConstraint 3 Source)
           \<lparr>polymorphic := JBool True, roleLabel := JString ''owns''\<rparr>))) = JString ''owns''
   \<and> polymorphic (snd (RelationshipConstraint_fromJson sample_env sample_store
        [(''polymorphic'', JBool True), (''roleLabel'', JString ''has'')]
        (new_RelationshipConstraint 3 Source))) = JBool True
   \<and> roleLabel (snd (RelationshipConstraint_fromJson sample_env sample_store
        [(''polymorphic'', JBool True), (''roleLabel'', JString ''has'')]
        (new_RelationshipConstraint 3 Source))) = JString ''has''"
proof -
  let ?falsy = "[(''polymorphic'', JBool False), (''roleLabel'', JString [])]"
  let ?truthy = "[(''polymorphic'', JBool True), (''roleLabel'', JString ''has'')]"
  have falsy: "\<not> truthy (field ?falsy ''polymorphic'')" "\<not> truthy (field ?falsy ''roleLabel'')"
    by (simp_all add: field_def)
  have truthy: "truthy (field ?truthy ''polymorphic'')" "truthy (field ?truthy ''roleLabel'')"
    by (simp_all add: field_def)
  have copies: "field ?truthy ''polymorphic'' = JBool True"
               "field ?truthy ''roleLabel'' = JString ''has''"
    by (simp_all add: field_def)
  note kept = RelationshipConstraint_fromJson_truthy_only
      [where jsonObj = ?falsy and env = sample_env and h = sample_store
         and this = "(new_RelationshipConstraint 3 Source)
                        \<lparr>polymorphic := JBool True, roleLabel := JString ''owns''\<rparr>"]
  note copied = RelationshipConstraint_fromJson_truthy_only
      [where jsonObj = ?truthy and env = sample_env and h = sample_store
         and this = "new_RelationshipConstraint 3 Source"]
  from kept falsy copied truthy copies show ?thesis by simp
qed

text \<open>
  C7, as the code has it. With a \<open>multiplicity\<close> that is a non-empty string,
  \<open>RelationshipConstraint.fromJson\<close> sets \<open>multiplicity\<close> to the parsed value when the
  string parses, and fails with InvalidMultiplicity, \<open>multiplicity\<close> left as it was, when
  the string does not parse. The empty string is falsy: it is not parsed, no
  InvalidMultiplicity is raised and \<open>multiplicity\<close> is left as it was.
\<close>

theorem RelationshipConstraint_fromJson_multiplicity:
  assumes str: "field jsonObj ''multiplicity'' = JString s"
  shows "(s \<noteq> [] \<and> RelationshipMultiplicity_fromString env (JString s) = Inr (Some m)
            \<longrightarrow> multiplicity (snd (RelationshipConstraint_fromJson env h jsonObj this)) = m)
       \<and> (s \<noteq> [] \<and> RelationshipMultiplicity_fromString env (JString s) = Inr None
            \<longrightarrow> fst (RelationshipConstraint_fromJson env h jsonObj this)
                  = Inl (ECObjectsError InvalidMultiplicity)
              \<and> multiplicity (snd (RelationshipConstraint_fromJson env h jsonObj this))
                  = multiplicity this)
       \<and> (s = []
            \<longrightarrow> fst (RelationshipConstraint_fromJson env h jsonObj this)
                  \<noteq> Inl (ECObjectsError InvalidMultiplicity)
              \<and> multiplicity (snd (RelationshipConstraint_fromJson env h jsonObj this))
                  = multiplicity this)"
proof (intro conjI impI)
  assume "s \<noteq> [] \<and> RelationshipMultiplicity_fromString env (JString s) = Inr (Some m)"
  with str show "multiplicity (snd (RelationshipConstraint_fromJson env h jsonObj this)) = m"
    by (simp add: multiplicity_after_fromJson)
next
  assume bad: "s \<noteq> [] \<and> RelationshipMultiplicity_fromString env (JString s) = Inr None"
  with str show "fst (RelationshipConstraint_fromJson env h jsonObj this)
                   = Inl (ECObjectsError InvalidMultiplicity)"
    by (simp add: RelationshipConstraint_fromJson_unparseable)
  from bad str
  show "multiplicity (snd (RelationshipConstraint_fromJson env h jsonObj this)) = multiplicity this"
    by (simp add: multiplicity_after_fromJson)
next
  assume "s = []"
  with str have falsy: "\<not> truthy (field jsonObj ''multiplicity'')" by simp
  then show "fst (RelationshipConstraint_fromJson env h jsonObj this)
               \<noteq> Inl (ECObjectsError InvalidMultiplicity)"
    by (rule RelationshipConstraint_fromJson_skipped)
  from falsy
  show "multiplicity (snd (RelationshipConstraint_fromJson env h jsonObj this)) = multiplicity this"
    by (simp add: multiplicity_after_fromJson)
qed

text \<open>
  The claim C7 as written asks for InvalidMultiplicity on every unparseable string. The
  empty string does not parse, and \<open>fromJson\<close> with it ends normally and changes nothing.
\<close>

theorem RelationshipConstraint_fromJson_empty_multiplicity_counterexample:
  "RelationshipMultiplicity_fromString sample_env (JString []) = Inr None
   \<and> RelationshipConstraint_fromJson sample_env sample_store [(''multiplicity'', JString [])]
        (new_RelationshipConstraint 3 Source)
       = (Inr (), new_RelationshipConstraint 3 Source)"
  by (simp add: RelationshipConstraint_fromJson_def sample_env_def field_def andThen_def)

theorem RelationshipConstraint_fromJson_multiplicity_witness:
  "multiplicity (snd (RelationshipConstraint_fromJson sample_env sample_store
        [(''multiplicity'', JString ''(0..*)'')] (new_RelationshipConstraint 3 Source)))
     = RelationshipMultiplicity 0 None
   \<and> fst (RelationshipConstraint_fromJson sample_env sample_store
        [(''multiplicity'', JString ''many'')] (new_RelationshipConstraint 3 Source))
     = Inl (ECObjectsError InvalidMultiplicity)
   \<and> multiplicity (snd (RelationshipConstraint_fromJson sample_env sample_store
        [(''multiplicity'', JString [])] (new_RelationshipConstraint 3 Source)))
     = zeroOne"
proof -
  let ?c = "new_RelationshipConstraint 3 Source"
  have parsed: "''(0..*)'' \<noteq> [] \<and> RelationshipMultiplicity_fromString sample_env
                  (JString ''(0..*)'') = Inr (Some (RelationshipMultiplicity 0 None))"
    by (simp add: sample_env_def)
  have unparseable: "''many'' \<noteq> [] \<and> RelationshipMultiplicity_fromString sample_env
                  (JString ''many'') = Inr None"
    by (simp add: sample_env_def)
  have default: "multiplicity ?c = zeroOne"
    by (simp add: new_RelationshipConstraint_def)
  note a = RelationshipConstraint_fromJson_multiplicity
      [where jsonObj = "[(''multiplicity'', JString ''(0..*)'')]" and s = "''(0..*)''"
         and env = sample_env and h = sample_store and this = ?c
         and m = "RelationshipMultiplicity 0 None",
       THEN conjunct1, THEN mp, OF _ parsed]
  note b = RelationshipConstraint_fromJson_multiplicity
      [where jsonObj = "[(''multiplicity'', JString ''many'')]" and s = "''many''"
         and env = sample_env and h = sample_store and this = ?c,
       THEN conjunct2, THEN conjunct1, THEN mp, OF _ unparseable]
  note c = RelationshipConstraint_fromJson_multiplicity
      [where jsonObj = "[(''multiplicity'', JString [])]" and s = "[]"
         and env = sample_env and h = sample_store and this = ?c,
       THEN conjunct2, THEN conjunct2, THEN mp, OF _ refl]
  have "multiplicity (snd (RelationshipConstraint_fromJson sample_env sample_store
        [(''multiplicity'', JString ''(0..*)'')] ?c)) = RelationshipMultiplicity 0 None"
    by (rule a) (simp add: field_def)
  moreover have "fst (RelationshipConstraint_fromJson sample_env sample_store
        [(''multiplicity'', JString ''many'')] ?c) = Inl (ECObjectsError InvalidMultiplicity)"
    by (rule b [THEN conjunct1]) (simp add: field_def)
  moreover have "multiplicity (snd (RelationshipConstraint_fromJson sample_env sample_store
        [(''multiplicity'', JString [])] ?c)) = multiplicity ?c"
    by (rule c [THEN conjunct2]) (simp add: field_def)
  ultimately show ?thesis using default by simp
qed

section \<open>Deserialization of a class\<close>

lemma ECClass_fromJson_after_modifier:
  assumes super: "SchemaChild_fromJson_on env jsonObj this = (Inr (), populated)"
      and modif: "truthy (field jsonObj ''modifier'')
                    \<longrightarrow> parseClassModifier env (field jsonObj ''modifier'') = Inr m"
      and after: "this' = (if truthy (field jsonObj ''modifier'') then populated\<lparr>modifier := m\<rparr>
                           else populated)"
  shows "ECClass_fromJson env jsonObj this =
     (if truthy (field jsonObj ''baseClass'') then
       if typeof (field jsonObj ''baseClass'') \<noteq> ''string''
       then (Inl (ECObjectsError InvalidECJson), this')
       else (case schema this' of
               SchemaObject getChild \<Rightarrow>
                 (case getChild (field jsonObj ''baseClass'') of
                    None \<Rightarrow> (Inl (ECObjectsError InvalidECJson), this')
                  | Some baseClass' \<Rightarrow> (Inr (), this'\<lparr>baseClass := Some (Inr baseClass')\<rparr>))
             | _ \<Rightarrow>
                 (case field jsonObj ''baseClass'' of
                    JString s \<Rightarrow> (Inr (), this'\<lparr>baseClass := Some (Inl s)\<rparr>)
                  | _ \<Rightarrow> (Inr (), this')))
     else (Inr (), this'))"
  unfolding after using super modif
  by (cases "truthy (field jsonObj ''modifier'')")
     (simp_all add: ECClass_fromJson_def andThen_def)

text \<open>
  C5, as the code has it. Let the population by the base class end normally and the
  modifier, if the input has a truthy one, parse. Then \<open>ECClass.fromJson\<close>
  \<^item> fails with InvalidECJson when \<open>baseClass\<close> is truthy and not a string;
  \<^item> with a non-empty string and a schema object as \<open>schema\<close>, looks the name up in the
    schema, fails with InvalidECJson when there is no such child and sets \<open>baseClass\<close> to
    the child otherwise;
  \<^item> with a non-empty string and no schema object (no schema, or only the name of one),
    stores the string itself as \<open>baseClass\<close>;
  \<^item> skips a falsy \<open>baseClass\<close> (absent, \<open>null\<close>, \<open>false\<close>, \<open>0\<close>, the empty string) and
    ends normally.
\<close>

theorem ECClass_fromJson_baseClass:
  assumes super: "SchemaChild_fromJson_on env jsonObj this = (Inr (), populated)"
      and modif: "truthy (field jsonObj ''modifier'')
                    \<longrightarrow> parseClassModifier env (field jsonObj ''modifier'') = Inr m"
      and after: "this' = (if truthy (field jsonObj ''modifier'') then populated\<lparr>modifier := m\<rparr>
                           else populated)"
  shows "(truthy (field jsonObj ''baseClass'') \<and> typeof (field jsonObj ''baseClass'') \<noteq> ''string''
            \<longrightarrow> ECClass_fromJson env jsonObj this = (Inl (ECObjectsError InvalidECJson), this'))
       \<and> (field jsonObj ''baseClass'' = JString s \<and> s \<noteq> []
            \<and> schema this' = SchemaObject getChild \<and> getChild (JString s) = None
            \<longrightarrow> ECClass_fromJson env jsonObj this = (Inl (ECObjectsError InvalidECJson), this'))
       \<and> (field jsonObj ''baseClass'' = JString s \<and> s \<noteq> []
            \<and> schema this' = SchemaObject getChild \<and> getChild (JString s) = Some b
            \<longrightarrow> ECClass_fromJson env jsonObj this
                  = (Inr (), this'\<lparr>baseClass := Some (Inr b)\<rparr>))
       \<and> (field jsonObj ''baseClass'' = JString s \<and> s \<noteq> []
            \<and> (\<forall>g. schema this' \<noteq> SchemaObject g)
            \<longrightarrow> ECClass_fromJson env jsonObj this
                  = (Inr (), this'\<lparr>baseClass := Some (Inl s)\<rparr>))
       \<and> (\<not> truthy (field jsonObj ''baseClass'')
            \<longrightarrow> ECClass_fromJson env jsonObj this = (Inr (), this'))"
  unfolding ECClass_fromJson_after_modifier [OF super modif after]
  by (simp split: schema_slot.splits)

text \<open>
  The claim C5 as written asks for InvalidECJson whenever \<open>baseClass\<close> is present and not
  a string, and for a resolution through the schema whenever it is a string. With
  \<open>baseClass: false\<close> the call ends normally; with a name and a class that has no schema
  the name itself becomes the base class.
\<close>

theorem ECClass_fromJson_baseClass_counterexample:
  "ECClass_fromJson sample_env [(''baseClass'', JBool False)] sample_entity
     = (Inr (), sample_entity)
   \<and> ECClass_fromJson sample_env [(''baseClass'', JString ''Conduit'')]
        (sample_entity\<lparr>schema := NoSchema\<rparr>)
     = (Inr (), sample_entity\<lparr>schema := NoSchema, baseClass := Some (Inl ''Conduit'')\<rparr>)"
  by (simp add: ECClass_fromJson_def SchemaChild_fromJson_on_def andThen_def field_def
        sample_env_def sample_entity_def schema_child.truncate_def)

lemma sample_SchemaChild_fromJson_on:
  "SchemaChild_fromJson_on sample_env jsonObj this = (Inr (), this)"
  by (simp add: SchemaChild_fromJson_on_def sample_env_def schema_child.truncate_def)

theorem ECClass_fromJson_baseClass_witness:
  "ECClass_fromJson sample_env [(''baseClass'', JNumber 42)] sample_entity
     = (Inl (ECObjectsError InvalidECJson), sample_entity)
   \<and> ECClass_fromJson sample_env [(''baseClass'', JString ''Conduit'')] sample_entity
     = (Inl (ECObjectsError InvalidECJson), sample_entity)
   \<and> ECClass_fromJson sample_env
        [(''modifier'', JString ''Abstract''), (''baseClass'', JString ''Pipe'')] sample_entity
     = (Inr (), sample_entity\<lparr>modifier := ECClassModifier_Abstract, baseClass := Some (Inr 0)\<rparr>)
   \<and> ECClass_fromJson sample_env [(''baseClass'', JString ''Conduit'')]
        (sample_entity\<lparr>schema := SchemaName ''Plant''\<rparr>)
     = (Inr (), sample_entity\<lparr>schema := SchemaName ''Plant'', baseClass := Some (Inl ''Conduit'')\<rparr>)
   \<and> ECClass_fromJson sample_env [(''baseClass'', JNull)] sample_entity
     = (Inr (), sample_entity)"
proof -
  let ?number = "[(''baseClass'', JNumber 42)]"
  let ?unknown = "[(''baseClass'', JString ''Conduit'')]"
  let ?known = "[(''modifier'', JString ''Abstract''), (''baseClass'', JString ''Pipe'')]"
  let ?null = "[(''baseClass'', JNull)]"
  let ?named = "sample_entity\<lparr>schema := SchemaName ''Plant''\<rparr>"
  have no_modifier:
    "truthy (field ?number ''modifier'')
       \<longrightarrow> parseClassModifier sample_env (field ?number ''modifier'') = Inr ECClassModifier_None"
    "truthy (field ?unknown ''modifier'')
       \<longrightarrow> parseClassModifier sample_env (field ?unknown ''modifier'') = Inr ECClassModifier_None"
    "truthy (field ?null ''modifier'')
       \<longrightarrow> parseClassModifier sample_env (field ?null ''modifier'') = Inr ECClassModifier_None"
    by (simp_all add: field_def)
  have abstract:
    "truthy (field ?known ''modifier'')
       \<longrightarrow> parseClassModifier sample_env (field ?known ''modifier'') = Inr ECClassModifier_Abstract"
    by (simp add: field_def sample_env_def)
  have same:
    "sample_entity = (if truthy (field ?number ''modifier'')
                      then sample_entity\<lparr>modifier := ECClassModifier_None\<rparr> else sample_entity)"
    "sample_entity = (if truthy (field ?unknown ''modifier'')
                      then sample_entity\<lparr>modifier := ECClassModifier_None\<rparr> else sample_entity)"
    "sample_entity = (if truthy (field ?null ''modifier'')
                      then sample_entity\<lparr>modifier := ECClassModifier_None\<rparr> else sample_entity)"
    "?named = (if truthy (field ?unknown ''modifier'')
               then ?named\<lparr>modifier := ECClassModifier_None\<rparr> else ?named)"
    by (simp_all add: field_def)
  have changed:
    "sample_entity\<lparr>modifier := ECClassModifier_Abstract\<rparr>
       = (if truthy (field ?known ''modifier'')
          then sample_entity\<lparr>modifier := ECClassModifier_Abstract\<rparr> else sample_entity)"
    by (simp add: field_def)
  note number = ECClass_fromJson_baseClass
      [OF sample_SchemaChild_fromJson_on no_modifier(1) same(1), THEN conjunct1, THEN mp]
  note unknown = ECClass_fromJson_baseClass
      [OF sample_SchemaChild_fromJson_on no_modifier(2) same(2),
       where s = "''Conduit''" and getChild = sample_getChild,
       THEN conjunct2, THEN conjunct1, THEN mp]
  note known = ECClass_fromJson_baseClass
      [OF sample_SchemaChild_fromJson_on abstract changed,
       where s = "''Pipe''" and getChild = sample_getChild and b = 0,
       THEN conjunct2, THEN conjunct2, THEN conjunct1, THEN mp]
  note named = ECClass_fromJson_baseClass
      [OF sample_SchemaChild_fromJson_on no_modifier(2) same(4), where s = "''Conduit''",
       THEN conjunct2, THEN conjunct2, THEN conjunct2, THEN conjunct1, THEN mp]
  note null = ECClass_fromJson_baseClass
      [OF sample_SchemaChild_fromJson_on no_modifier(3) same(3),
       THEN conjunct2, THEN conjunct2, THEN conjunct2, THEN conjunct2, THEN mp]
  have "ECClass_fromJson sample_env ?number sample_entity
          = (Inl (ECObjectsError InvalidECJson), sample_entity)"
    by (rule number) (simp add: field_def)
  moreover have "ECClass_fromJson sample_env ?unknown sample_entity
          = (Inl (ECObjectsError InvalidECJson), sample_entity)"
    by (rule unknown) (simp add: field_def sample_entity_def sample_getChild_def)
  moreover have "ECClass_fromJson sample_env ?known sample_entity
          = (Inr (), sample_entity\<lparr>modifier := ECClassModifier_Abstract,
                                    baseClass := Some (Inr 0)\<rparr>)"
    by (rule known) (simp add: field_def sample_entity_def sample_getChild_def)
  moreover have "ECClass_fromJson sample_env ?unknown ?named
          = (Inr (), ?named\<lparr>baseClass := Some (Inl ''Conduit'')\<rparr>)"
    by (rule named) (simp add: field_def)
  moreover have "ECClass_fromJson sample_env ?null sample_entity = (Inr (), sample_entity)"
    by (rule null) (simp add: field_def)
  ultimately show ?thesis by simp
qed

section \<open>Mixins and custom attributes\<close>

lemma SchemaChild_fromJson_on_more:
  "ecclass.more (snd (SchemaChild_fromJson_on env jsonObj this)) = ecclass.more this"
  by (simp add: SchemaChild_fromJson_on_def split: prod.splits)

lemma ECClass_fromJson_more:
  "ecclass.more (snd (ECClass_fromJson env jsonObj this)) = ecclass.more this"
  unfolding ECClass_fromJson_def
  by (intro snd_andThen_preserves [where g = ecclass.more])
     (simp_all add: SchemaChild_fromJson_on_more
        split: sum.splits schema_slot.splits option.splits jsvalue.splits)

lemma ECClass_fromJson_appliesTo:
  "appliesTo (snd (ECClass_fromJson env jsonObj this)) = appliesTo this"
proof -
  have "appliesTo r = appliesTo r'" if "ecclass.more r = ecclass.more r'"
    for r r' :: "'a mixin_class_scheme"
    using that by (cases r, cases r') simp
  then show ?thesis using ECClass_fromJson_more by blast
qed

text \<open>
  C9, as the code has it. On an input without \<open>appliesTo\<close>, \<open>MixinClass.fromJson\<close> adds
  no error of its own: it ends as the inherited \<open>ECClass.fromJson\<close> ends on that input,
  normally whenever that one does, and \<open>appliesTo\<close> is left as it was.
  \<open>CustomAttributeClass.fromJson\<close> never ends normally on such an input: where the
  inherited \<open>fromJson\<close> ends normally it fails with InvalidECJson.
\<close>

theorem MixinClass_fromJson_without_appliesTo:
  assumes absent: "field jsonObj ''appliesTo'' = JUndefined"
  shows "MixinClass_fromJson env jsonObj this = ECClass_fromJson env jsonObj this
       \<and> appliesTo (snd (MixinClass_fromJson env jsonObj this)) = appliesTo this
       \<and> fst (CustomAttributeClass_fromJson env jsonObj thisC) \<noteq> Inr ()
       \<and> (ECClass_fromJson env jsonObj thisC = (Inr (), thisC')
            \<longrightarrow> CustomAttributeClass_fromJson env jsonObj thisC
                  = (Inl (ECObjectsError InvalidECJson), thisC'))"
proof (intro conjI impI)
  show same: "MixinClass_fromJson env jsonObj this = ECClass_fromJson env jsonObj this"
    using absent
    by (cases "ECClass_fromJson env jsonObj this")
       (simp add: MixinClass_fromJson_def andThen_def split: sum.splits)
  show "appliesTo (snd (MixinClass_fromJson env jsonObj this)) = appliesTo this"
    unfolding same by (rule ECClass_fromJson_appliesTo)
  show "fst (CustomAttributeClass_fromJson env jsonObj thisC) \<noteq> Inr ()"
    using absent
    by (cases "ECClass_fromJson env jsonObj thisC")
       (simp add: CustomAttributeClass_fromJson_def andThen_def split: sum.splits)
next
  assume "ECClass_fromJson env jsonObj thisC = (Inr (), thisC')"
  with absent show "CustomAttributeClass_fromJson env jsonObj thisC
                      = (Inl (ECObjectsError InvalidECJson), thisC')"
    by (simp add: CustomAttributeClass_fromJson_def andThen_def)
qed

text \<open>
  The claim C9 as written lets \<open>MixinClass.fromJson\<close> succeed on every input without
  \<open>appliesTo\<close>. The input \<open>{ baseClass: 42 }\<close> has none, and the inherited
  \<open>ECClass.fromJson\<close> refuses it with InvalidECJson.
\<close>

theorem MixinClass_fromJson_without_appliesTo_counterexample:
  "field [(''baseClass'', JNumber 42)] ''appliesTo'' = JUndefined
   \<and> MixinClass_fromJson sample_env [(''baseClass'', JNumber 42)] (sample_mixin ''IHasFlow'')
       = (Inl (ECObjectsError InvalidECJson), sample_mixin ''IHasFlow'')"
  by (simp add: MixinClass_fromJson_def ECClass_fromJson_def SchemaChild_fromJson_on_def
        andThen_def field_def sample_env_def sample_mixin_def schema_child.truncate_def)

text \<open>Whatever the base class and the parsers do, that input is refused.\<close>

lemma MixinClass_fromJson_baseClass_number:
  "fst (MixinClass_fromJson env [(''baseClass'', JNumber 42)] this) \<noteq> Inr ()"
  by (simp add: MixinClass_fromJson_def ECClass_fromJson_def andThen_def field_def
        split: prod.splits sum.splits)

theorem MixinClass_fromJson_without_appliesTo_witness:
  "MixinClass_fromJson sample_env [(''modifier'', JString ''Sealed'')] (sample_mixin ''IHasFlow'')
     = (Inr (), (sample_mixin ''IHasFlow'')\<lparr>modifier := ECClassModifier_Sealed\<rparr>)
   \<and> appliesTo (snd (MixinClass_fromJson sample_env [(''modifier'', JString ''Sealed'')]
        ((sample_mixin ''IHasFlow'')\<lparr>appliesTo := Some (Inr 0)\<rparr>))) = Some (Inr 0)
   \<and> CustomAttributeClass_fromJson sample_env [(''modifier'', JString ''Sealed'')]
        sample_customAttribute
     = (Inl (ECObjectsError InvalidECJson),
        sample_customAttribute\<lparr>modifier := ECClassModifier_Sealed\<rparr>)"
proof -
  let ?json = "[(''modifier'', JString ''Sealed'')]"
  have absent: "field ?json ''appliesTo'' = JUndefined"
    by (simp add: field_def)
  have sealed: "parseClassModifier sample_env (JString ''Sealed'') = Inr ECClassModifier_Sealed"
    by (simp add: sample_env_def)
  have base: "ECClass_fromJson sample_env ?json this
                = (Inr (), this\<lparr>modifier := ECClassModifier_Sealed\<rparr>)"
    for this :: "'a ecclass_scheme"
    by (simp add: ECClass_fromJson_def sample_SchemaChild_fromJson_on andThen_def field_def
          sealed)
  note mixin = MixinClass_fromJson_without_appliesTo
      [OF absent, where env = sample_env and this = "sample_mixin ''IHasFlow''"
         and thisC = sample_customAttribute
         and thisC' = "sample_customAttribute\<lparr>modifier := ECClassModifier_Sealed\<rparr>"]
  note kept = MixinClass_fromJson_without_appliesTo
      [OF absent, where env = sample_env
         and this = "(sample_mixin ''IHasFlow'')\<lparr>appliesTo := Some (Inr 0)\<rparr>"
         and thisC = sample_customAttribute
         and thisC' = "sample_customAttribute\<lparr>modifier := ECClassModifier_Sealed\<rparr>"]
  from mixin [THEN conjunct1] base [of "sample_mixin ''IHasFlow''"]
  have "MixinClass_fromJson sample_env ?json (sample_mixin ''IHasFlow'')
          = (Inr (), (sample_mixin ''IHasFlow'')\<lparr>modifier := ECClassModifier_Sealed\<rparr>)"
    by simp
  moreover from kept [THEN conjunct2, THEN conjunct1]
  have "appliesTo (snd (MixinClass_fromJson sample_env ?json
          ((sample_mixin ''IHasFlow'')\<lparr>appliesTo := Some (Inr 0)\<rparr>))) = Some (Inr 0)"
    by simp
  moreover from mixin [THEN conjunct2, THEN conjunct2, THEN conjunct2] base [of sample_customAttribute]
  have "CustomAttributeClass_fromJson sample_env ?json sample_customAttribute
          = (Inl (ECObjectsError InvalidECJson),
             sample_customAttribute\<lparr>modifier := ECClassModifier_Sealed\<rparr>)"
    by blast
  ultimately show ?thesis by (intro conjI)
qed

lemma loadMixin_schema:
  "schema (snd (loadMixin n this)) = schema this"
  by (simp add: loadMixin_def split: sum.splits option.splits)

lemma forEach_loadMixin_resolved:
  assumes "schema this = SchemaObject getChild"
      and "map getChild mixinNames = map Some resolved"
  shows "forEach loadMixin mixinNames this
           = (Inr (), if resolved = [] then this
                      else this\<lparr>mixins := Some ((case mixins this of None \<Rightarrow> [] | Some ms \<Rightarrow> ms)
                                                  @ resolved)\<rparr>)"
  using assms
proof (induction mixinNames arbitrary: this resolved)
  case Nil
  then show ?case by simp
next
  case (Cons n ns)
  from Cons.prems(2) obtain m ms where resolved: "resolved = m # ms"
    and m: "getChild n = Some m" and ms: "map getChild ns = map Some ms"
    by (cases resolved) auto
  let ?this' = "this\<lparr>mixins := Some ((case mixins this of None \<Rightarrow> [] | Some ms \<Rightarrow> ms) @ [m])\<rparr>"
  from Cons.prems(1) m have step: "loadMixin n this = (Inr (), ?this')"
    by (simp add: loadMixin_def)
  from Cons.prems(1) have "schema ?this' = SchemaObject getChild" by simp
  from Cons.IH [OF this ms] step resolved show ?case by simp
qed

lemma forEach_loadMixin_unresolved:
  assumes "schema this = SchemaObject getChild"
      and "\<exists>n \<in> set mixinNames. getChild n = None"
  shows "fst (forEach loadMixin mixinNames this) = Inl (ECObjectsError InvalidECJson)"
  using assms
proof (induction mixinNames arbitrary: this)
  case Nil
  then show ?case by simp
next
  case (Cons n ns)
  show ?case
  proof (cases "getChild n")
    case None
    with Cons.prems(1) show ?thesis by (simp add: loadMixin_def)
  next
    case (Some m)
    let ?this' = "this\<lparr>mixins := Some ((case mixins this of None \<Rightarrow> [] | Some ms \<Rightarrow> ms) @ [m])\<rparr>"
    from Cons.prems(1) Some have step: "loadMixin n this = (Inr (), ?this')"
      by (simp add: loadMixin_def)
    from Cons.prems(1) have sch: "schema ?this' = SchemaObject getChild" by simp
    from Cons.prems(2) Some have "\<exists>n \<in> set ns. getChild n = None" by auto
    from Cons.IH [OF sch this] step show ?thesis by simp
  qed
qed

text \<open>
  C6, as the code has it. Let the inherited \<open>ECClass.fromJson\<close> end normally. Then
  \<open>EntityClass.fromJson\<close>
  \<^item> with an array as \<open>mixin\<close> and a schema object that resolves every entry, appends the
    resolved classes to \<open>mixins\<close> in the order of the array (an empty array changes
    nothing);
  \<^item> fails with InvalidECJson when \<open>mixin\<close> is truthy and neither a string nor an array;
  \<^item> fails with InvalidECJson when \<open>mixin\<close> is an array with an entry that the schema
    object does not resolve, or a non-empty string that it does not resolve;
  \<^item> skips a falsy \<open>mixin\<close> (absent, \<open>null\<close>, \<open>false\<close>, \<open>0\<close>, the empty string) and
    ends normally.
\<close>

theorem EntityClass_fromJson_mixin:
  assumes super: "ECClass_fromJson env jsonObj this = (Inr (), this')"
  shows "(field jsonObj ''mixin'' = JArray mixinNames \<and> schema this' = SchemaObject getChild
            \<and> map getChild mixinNames = map Some resolved
            \<longrightarrow> EntityClass_fromJson env jsonObj this
                  = (Inr (), if resolved = [] then this'
                             else this'\<lparr>mixins :=
                                    Some ((case mixins this' of None \<Rightarrow> [] | Some ms \<Rightarrow> ms)
                                          @ resolved)\<rparr>))
       \<and> (truthy (field jsonObj ''mixin'') \<and> typeof (field jsonObj ''mixin'') \<noteq> ''string''
            \<and> \<not> isArray (field jsonObj ''mixin'')
            \<longrightarrow> EntityClass_fromJson env jsonObj this
                  = (Inl (ECObjectsError InvalidECJson), this'))
       \<and> (field jsonObj ''mixin'' = JArray mixinNames \<and> schema this' = SchemaObject getChild
            \<and> (\<exists>n \<in> set mixinNames. getChild n = None)
            \<longrightarrow> fst (EntityClass_fromJson env jsonObj this) = Inl (ECObjectsError InvalidECJson))
       \<and> (field jsonObj ''mixin'' = JString s \<and> s \<noteq> [] \<and> schema this' = SchemaObject getChild
            \<and> getChild (JString s) = None
            \<longrightarrow> EntityClass_fromJson env jsonObj this
                  = (Inl (ECObjectsError InvalidECJson), this'))
       \<and> (\<not> truthy (field jsonObj ''mixin'')
            \<longrightarrow> EntityClass_fromJson env jsonObj this = (Inr (), this'))"
proof -
  have body: "EntityClass_fromJson env jsonObj this =
     (if truthy (field jsonObj ''mixin'') then
       if typeof (field jsonObj ''mixin'') = ''string''
       then loadMixin (field jsonObj ''mixin'') this'
       else (case field jsonObj ''mixin'' of
               JArray mixinNames \<Rightarrow> forEach loadMixin mixinNames this'
             | _ \<Rightarrow> (Inl (ECObjectsError InvalidECJson), this'))
     else (Inr (), this'))"
    using super by (simp add: EntityClass_fromJson_def andThen_def)
  show ?thesis
    unfolding body
    by (auto simp: forEach_loadMixin_resolved forEach_loadMixin_unresolved loadMixin_def
          split: jsvalue.splits)
qed

text \<open>
  The claim C6 as written asks for InvalidECJson on every \<open>mixin\<close> that is neither a
  string nor an array and on every name that does not resolve. With \<open>mixin: false\<close>, and
  with the empty string, which the sample schema does not resolve, the call ends
  normally and changes nothing.
\<close>

theorem EntityClass_fromJson_mixin_counterexample:
  "EntityClass_fromJson sample_env [(''mixin'', JBool False)] sample_entity
     = (Inr (), sample_entity)
   \<and> sample_getChild (JString []) = None
   \<and> EntityClass_fromJson sample_env [(''mixin'', JString [])] sample_entity
     = (Inr (), sample_entity)"
  by (simp add: EntityClass_fromJson_def ECClass_fromJson_def sample_SchemaChild_fromJson_on
        andThen_def field_def sample_getChild_def)

theorem EntityClass_fromJson_mixin_witness:
  "EntityClass_fromJson sample_env [(''mixin'', JArray [JString ''IHasFlow'', JString ''IHasLabel''])]
        sample_entity
     = (Inr (), sample_entity\<lparr>mixins := Some [1, 2]\<rparr>)
   \<and> EntityClass_fromJson sample_env [(''mixin'', JNumber 5)] sample_entity
     = (Inl (ECObjectsError InvalidECJson), sample_entity)
   \<and> fst (EntityClass_fromJson sample_env
        [(''mixin'', JArray [JString ''IHasFlow'', JString ''IHasColour''])] sample_entity)
     = Inl (ECObjectsError InvalidECJson)
   \<and> EntityClass_fromJson sample_env [(''mixin'', JString ''IHasColour'')] sample_entity
     = (Inl (ECObjectsError InvalidECJson), sample_entity)
   \<and> EntityClass_fromJson sample_env [(''mixin'', JNull)] sample_entity
     = (Inr (), sample_entity)"
proof -
  let ?both = "[(''mixin'', JArray [JString ''IHasFlow'', JString ''IHasLabel''])]"
  let ?number = "[(''mixin'', JNumber 5)]"
  let ?one_unknown = "[(''mixin'', JArray [JString ''IHasFlow'', JString ''IHasColour''])]"
  let ?unknown = "[(''mixin'', JString ''IHasColour'')]"
  let ?null = "[(''mixin'', JNull)]"
  have base: "ECClass_fromJson sample_env [(''mixin'', v)] sample_entity = (Inr (), sample_entity)"
    for v
    by (simp add: ECClass_fromJson_def sample_SchemaChild_fromJson_on andThen_def field_def)
  have sch: "schema sample_entity = SchemaObject sample_getChild"
    by (simp add: sample_entity_def)
  have none: "mixins sample_entity = None"
    by (simp add: sample_entity_def)
  have both: "field ?both ''mixin'' = JArray [JString ''IHasFlow'', JString ''IHasLabel'']
      \<and> schema sample_entity = SchemaObject sample_getChild
      \<and> map sample_getChild [JString ''IHasFlow'', JString ''IHasLabel''] = map Some [1, 2]"
    by (simp add: field_def sch sample_getChild_def)
  have number: "truthy (field ?number ''mixin'') \<and> typeof (field ?number ''mixin'') \<noteq> ''string''
      \<and> \<not> isArray (field ?number ''mixin'')"
    by (simp add: field_def)
  have one_unknown:
    "field ?one_unknown ''mixin'' = JArray [JString ''IHasFlow'', JString ''IHasColour'']
      \<and> schema sample_entity = SchemaObject sample_getChild
      \<and> (\<exists>n \<in> set [JString ''IHasFlow'', JString ''IHasColour'']. sample_getChild n = None)"
    by (simp add: field_def sch sample_getChild_def)
  have unknown: "field ?unknown ''mixin'' = JString ''IHasColour'' \<and> ''IHasColour'' \<noteq> []
      \<and> schema sample_entity = SchemaObject sample_getChild
      \<and> sample_getChild (JString ''IHasColour'') = None"
    by (simp add: field_def sch sample_getChild_def)
  have null: "\<not> truthy (field ?null ''mixin'')"
    by (simp add: field_def)
  note a = EntityClass_fromJson_mixin [OF base, THEN conjunct1, THEN mp, OF both]
  note b = EntityClass_fromJson_mixin
      [OF base, THEN conjunct2, THEN conjunct1, THEN mp, OF number]
  note c = EntityClass_fromJson_mixin
      [OF base, THEN conjunct2, THEN conjunct2, THEN conjunct1, THEN mp, OF one_unknown]
  note d = EntityClass_fromJson_mixin
      [OF base, THEN conjunct2, THEN conjunct2, THEN conjunct2, THEN conjunct1, THEN mp,
       OF unknown]
  note e = EntityClass_fromJson_mixin
      [OF base, THEN conjunct2, THEN conjunct2, THEN conjunct2, THEN conjunct2, THEN mp,
       OF null]
  from a none have "EntityClass_fromJson sample_env ?both sample_entity
                      = (Inr (), sample_entity\<lparr>mixins := Some [1, 2]\<rparr>)"
    by simp
  with b c d e show ?thesis by (intro conjI)
qed

end
